theory Spec2Isabelle
  imports Main
begin

section \<open>Python values used by ExcelFillPDF.py\<close>

subsection \<open>Dictionaries\<close>

text \<open>
  A Python \<open>dict\<close> keeps its keys in insertion order and holds each key once. It is an
  association list here; assigning to a key that is already there replaces the value in
  place, assigning to a new key appends it. \<open>dict.update\<close> assigns the pairs of its
  argument one after the other, in the argument's order.
\<close>

type_synonym ('k, 'v) dict = "('k \<times> 'v) list"

definition dict_get :: "('k, 'v) dict \<Rightarrow> 'k \<Rightarrow> 'v option" where
  "dict_get d k = map_of d k"

definition dict_keys :: "('k, 'v) dict \<Rightarrow> 'k list" where
  "dict_keys d = map fst d"

fun dict_set :: "('k, 'v) dict \<Rightarrow> 'k \<Rightarrow> 'v \<Rightarrow> ('k, 'v) dict" where
  "dict_set [] k v = [(k, v)]"
| "dict_set ((k', v') # d) k v =
     (if k' = k then (k', v) # d else (k', v') # dict_set d k v)"

fun dict_update :: "('k, 'v) dict \<Rightarrow> ('k, 'v) dict \<Rightarrow> ('k, 'v) dict" where
  "dict_update d [] = d"
| "dict_update d ((k, v) # e) = dict_update (dict_set d k v) e"

subsection \<open>Strings\<close>

text \<open>
  A string is a list of code points below 256. \<open>str.strip()\<close> removes the leading and
  the trailing characters for which \<open>str.isspace\<close> holds; \<open>str.lower()\<close> maps the
  upper-case letters of that range to their lower-case ones.
\<close>

definition isspace :: "char \<Rightarrow> bool" where
  "isspace c =
     (let n = (of_char c :: nat)
      in (9 \<le> n \<and> n \<le> 13) \<or> (28 \<le> n \<and> n \<le> 32) \<or> n = 133 \<or> n = 160)"

definition strip :: "string \<Rightarrow> string" where
  "strip s = rev (dropWhile isspace (rev (dropWhile isspace s)))"

definition lower_char :: "char \<Rightarrow> char" where
  "lower_char c =
     (let n = (of_char c :: nat)
      in if (65 \<le> n \<and> n \<le> 90) \<or> (192 \<le> n \<and> n \<le> 214) \<or> (216 \<le> n \<and> n \<le> 222)
         then char_of (n + 32) else c)"

definition lower :: "string \<Rightarrow> string" where
  "lower s = map lower_char s"

definition digit_char :: "nat \<Rightarrow> char" where
  "digit_char d = ''0123456789'' ! (d mod 10)"

fun str_nat :: "nat \<Rightarrow> string" where
  "str_nat n = (if n < 10 then [digit_char n] else str_nat (n div 10) @ [digit_char (n mod 10)])"

declare str_nat.simps [simp del]

definition str_int :: "int \<Rightarrow> string" where
  "str_int i = (if i < 0 then CHR ''-'' # str_nat (nat (- i)) else str_nat (nat i))"

text \<open>\<open>zfill w s\<close> pads \<open>s\<close> with zeros on the left to the width \<open>w\<close>.\<close>

definition zfill :: "nat \<Rightarrow> string \<Rightarrow> string" where
  "zfill w s = replicate (w - length s) (CHR ''0'') @ s"

subsection \<open>Cell values\<close>

text \<open>
  A \<open>pandas.Timestamp\<close> without time zone and without a fraction of a second. Its
  \<open>str\<close> is \<open>YYYY-MM-DD HH:MM:SS\<close>; \<open>strftime('%m/%d/%Y')\<close> is the month and the day
  on two digits and the year, separated by slashes.
\<close>

record timestamp =
  year :: nat
  month :: nat
  day :: nat
  hour :: nat
  minute :: nat
  second :: nat

text \<open>
  The fields of a timestamp are those of a calendar date and a time of day. The year
  is not bounded.
\<close>

definition valid_timestamp :: "timestamp \<Rightarrow> bool" where
  "valid_timestamp t \<longleftrightarrow>
     1 \<le> month t \<and> month t \<le> 12 \<and> 1 \<le> day t \<and> day t \<le> 31 \<and>
     hour t < 24 \<and> minute t < 60 \<and> second t < 60"

definition strftime_mdY :: "timestamp \<Rightarrow> string" where
  "strftime_mdY t =
     zfill 2 (str_nat (month t)) @ ''/'' @ zfill 2 (str_nat (day t)) @ ''/'' @ str_nat (year t)"

definition str_timestamp :: "timestamp \<Rightarrow> string" where
  "str_timestamp t =
     zfill 4 (str_nat (year t)) @ ''-'' @ zfill 2 (str_nat (month t)) @ ''-'' @
     zfill 2 (str_nat (day t)) @ '' '' @ zfill 2 (str_nat (hour t)) @ '':'' @
     zfill 2 (str_nat (minute t)) @ '':'' @ zfill 2 (str_nat (second t))"

text \<open>
  What a cell of the data frame holds: a missing value (\<open>None\<close>, \<open>nan\<close> or \<open>NaT\<close>), a
  string, an integer, a boolean or a timestamp. Floating-point cells other than \<open>nan\<close>
  are left out.
\<close>

datatype cell =
    CNone
  | CNaN
  | CNaT
  | CStr string
  | CInt int
  | CBool bool
  | CTimestamp timestamp

fun isnull :: "cell \<Rightarrow> bool" where
  "isnull CNone = True"
| "isnull CNaN = True"
| "isnull CNaT = True"
| "isnull _ = False"

fun str :: "cell \<Rightarrow> string" where
  "str CNone = ''None''"
| "str CNaN = ''nan''"
| "str CNaT = ''NaT''"
| "str (CStr s) = s"
| "str (CInt i) = str_int i"
| "str (CBool b) = (if b then ''True'' else ''False'')"
| "str (CTimestamp t) = str_timestamp t"

section \<open>The data frame and the mapping tables\<close>

text \<open>
  A data frame is its column names and its rows, each row the cells in column order;
  \<open>row[column]\<close> reads the cell under that column (a row shorter than the header has
  \<open>nan\<close> there, as pandas fills it). The index of a frame read by \<open>pd.read_excel\<close> is
  the position of the row, from 0.
\<close>

record dataframe =
  columns :: "string list"
  rows :: "cell list list"

definition row_at :: "string list \<Rightarrow> cell list \<Rightarrow> string \<Rightarrow> cell" where
  "row_at cols row c = (case map_of (zip cols row) c of Some v \<Rightarrow> v | None \<Rightarrow> CNaN)"

type_synonym field_values = "(string, string) dict"

type_synonym checkbox_info = "(string, field_values) dict"

type_synonym checkbox_options = "(string, checkbox_info) dict"

text \<open>The three tables of the source, \<open>FIELD_MAPPING\<close>, \<open>CHECKBOX_MAPPINGS\<close> and \<open>DATE_FIELDS\<close>.\<close>

definition FIELD_MAPPING :: "(string, string) dict" where
  "FIELD_MAPPING =
     [(''Name(s)'', ''f1_01[0]''),
      (''Identifying number'', ''f1_02[0]''),
      (''Year'', ''f1_03[0]''),
      (''Make'', ''f1_04[0]''),
      (''Model'', ''f1_05[0]''),
      (''VIN'', ''f1_06[0]''),
      (''Date in Service'', ''f1_07[0]'')]"

definition CHECKBOX_MAPPINGS :: "(string, checkbox_options) dict" where
  "CHECKBOX_MAPPINGS =
     [(''more than $25,000?'',
        [(''yes'', [(''fields'', [(''c1_1[0]'', ''/1''), (''c1_1[1]'', '''')])]),
         (''no'', [(''fields'', [(''c1_1[0]'', ''''), (''c1_1[1]'', ''/2'')])])]),
      (''new clean vehicle?'',
        [(''yes'', [(''fields'', [(''c1_2[0]'', ''/1''), (''c1_2[1]'', '''')])]),
         (''no'', [(''fields'', [(''c1_2[0]'', ''''), (''c1_2[1]'', ''/2'')])])])]"

definition DATE_FIELDS :: "string list" where
  "DATE_FIELDS = [''Date in Service'']"

section \<open>Logging\<close>

text \<open>One constructor for each \<open>logging\<close> call of \<open>fill_pdf_with_data\<close>, with the values its message shows.\<close>

datatype error = IndexError | LibraryError string

datatype log_record =
    DateParsingFailed cell
  | FieldNotFound string
  | UnrecognizedCheckboxValue cell string
  | CheckboxFieldNotFound string
  | NoAcroFormFound
  | PdfSavedAs string
  | ErrorFillingPdf error

datatype levelname = INFO | WARNING | ERROR

fun level :: "log_record \<Rightarrow> levelname" where
  "level (DateParsingFailed _) = WARNING"
| "level (FieldNotFound _) = WARNING"
| "level (UnrecognizedCheckboxValue _ _) = WARNING"
| "level (CheckboxFieldNotFound _) = WARNING"
| "level NoAcroFormFound = WARNING"
| "level (PdfSavedAs _) = INFO"
| "level (ErrorFillingPdf _) = ERROR"

section \<open>Field resolution\<close>

text \<open>
  The two loops of \<open>fill_pdf_with_data\<close> that build \<open>field_values\<close>. The state is the
  dictionary and the log records written so far. \<open>pd.to_datetime\<close> belongs to pandas
  and is a parameter: \<open>to_datetime v = Some t\<close> when the call returns the timestamp
  \<open>t\<close>, \<open>None\<close> when it raises or returns \<open>NaT\<close> (whose \<open>strftime\<close> raises), the two
  cases that the \<open>except\<close> clause catches.
\<close>

type_synonym resolution = "field_values \<times> log_record list"

definition regular_field ::
  "(cell \<Rightarrow> timestamp option) \<Rightarrow> string list \<Rightarrow> cell list \<Rightarrow> string list \<Rightarrow>
   resolution \<Rightarrow> string \<times> string \<Rightarrow> resolution" where
  "regular_field to_datetime cols row date_fields st entry =
     (case st of (field_values, log) \<Rightarrow>
     (case entry of (excel_column, pdf_field_name) \<Rightarrow>
        if excel_column \<in> set cols then
          (let field_value = row_at cols row excel_column in
           if isnull field_value then (dict_set field_values pdf_field_name '''', log)
           else if excel_column \<in> set date_fields then
             (case to_datetime field_value of
                Some t \<Rightarrow> (dict_set field_values pdf_field_name (strftime_mdY t), log)
              | None \<Rightarrow> (dict_set field_values pdf_field_name (str field_value),
                         log @ [DateParsingFailed field_value]))
           else (dict_set field_values pdf_field_name (str field_value), log))
        else (field_values, log @ [FieldNotFound excel_column])))"

definition checkbox_field ::
  "string list \<Rightarrow> cell list \<Rightarrow> resolution \<Rightarrow> string \<times> checkbox_options \<Rightarrow> resolution" where
  "checkbox_field cols row st entry =
     (case st of (field_values, log) \<Rightarrow>
     (case entry of (excel_column, options) \<Rightarrow>
        if excel_column \<in> set cols then
          (let field_value = row_at cols row excel_column;
               field_value_str = lower (strip (str field_value))
           in case dict_get options field_value_str of
                Some checkbox_info \<Rightarrow>
                  (if checkbox_info \<noteq> [] \<and> ''fields'' \<in> set (dict_keys checkbox_info)
                   then (dict_update field_values (the (dict_get checkbox_info ''fields'')), log)
                   else (field_values, log @ [UnrecognizedCheckboxValue field_value excel_column]))
              | None \<Rightarrow> (field_values, log @ [UnrecognizedCheckboxValue field_value excel_column]))
        else (field_values, log @ [CheckboxFieldNotFound excel_column])))"

definition resolve_fields ::
  "(cell \<Rightarrow> timestamp option) \<Rightarrow> string list \<Rightarrow> cell list \<Rightarrow>
   (string, string) dict \<Rightarrow> (string, checkbox_options) dict \<Rightarrow> string list \<Rightarrow>
   resolution \<Rightarrow> resolution" where
  "resolve_fields to_datetime cols row field_mapping checkbox_mappings date_fields st =
     foldl (checkbox_field cols row)
       (foldl (regular_field to_datetime cols row date_fields) st field_mapping)
       checkbox_mappings"

section \<open>Documents\<close>

text \<open>
  What \<open>fill_pdf_with_data\<close> reads and builds of a PDF: the list of pages and the
  \<open>/AcroForm\<close> entry of the catalog, absent or a dictionary. Pages and the other PDF
  objects are of any type.
\<close>

datatype 'o pdfobj = BooleanObject bool | OtherObject 'o

type_synonym 'o acroform = "(string, 'o pdfobj) dict"

record ('p, 'o) reader =
  reader_pages :: "'p list"
  reader_acroform :: "'o acroform option"

record ('p, 'o) writer =
  pages :: "'p list"
  root_acroform :: "'o acroform option"

definition PdfWriter :: "('p, 'o) writer" where
  "PdfWriter = \<lparr>pages = [], root_acroform = None\<rparr>"

definition add_page :: "('p, 'o) writer \<Rightarrow> 'p \<Rightarrow> ('p, 'o) writer" where
  "add_page w p = w\<lparr>pages := pages w @ [p]\<rparr>"

text \<open>
  \<open>set_need_appearances_writer\<close> is called right after the catalog received its
  \<open>/AcroForm\<close>, so its branch that creates a missing one is not taken; it is modelled
  on the form dictionary it then updates.
\<close>

definition set_need_appearances_writer :: "'o acroform \<Rightarrow> 'o acroform" where
  "set_need_appearances_writer acro_form =
     dict_set acro_form ''/NeedAppearances'' (BooleanObject True)"

text \<open>
  The calls into pypdf and the file system whose results the source does not decide:
  opening the template for the row of a given index, the library's
  \<open>update_page_form_field_values\<close> on a writer, the index of a page of it and a
  dictionary of values, and opening and writing the output file of a given name for the
  row of a given index. Each returns an error when the call raises.
\<close>

record ('p, 'o) env =
  mkdir :: "error option"
  PdfReader :: "nat \<Rightarrow> error + ('p, 'o) reader"
  update_page_form_field_values ::
    "('p, 'o) writer \<Rightarrow> nat \<Rightarrow> field_values \<Rightarrow> error + ('p, 'o) writer"
  write_pdf :: "nat \<Rightarrow> string \<Rightarrow> ('p, 'o) writer \<Rightarrow> error option"

section \<open>Filling one document per row\<close>

text \<open>
  What a run, or a part of it, has done: the log, the arguments (page index and values)
  of the calls of \<open>update_page_form_field_values\<close>, and the files written to the end,
  in order, each with its name below the output folder and the document written.
\<close>

record ('p, 'o) run =
  log :: "log_record list"
  calls :: "(nat \<times> field_values) list"
  files :: "(string \<times> ('p, 'o) writer) list"

definition empty_run :: "('p, 'o) run" where
  "empty_run = \<lparr>log = [], calls = [], files = []\<rparr>"

definition append_run :: "('p, 'o) run \<Rightarrow> ('p, 'o) run \<Rightarrow> ('p, 'o) run" where
  "append_run r d = \<lparr>log = log r @ log d, calls = calls r @ calls d, files = files r @ files d\<rparr>"

text \<open>Lines 146 to 160: the new writer with the template's pages and form dictionary.\<close>

definition copy_template ::
  "('p, 'o) reader \<Rightarrow> ('p, 'o) writer \<times> log_record list" where
  "copy_template rd =
     (let w = foldl add_page PdfWriter (reader_pages rd)
      in case reader_acroform rd of
           Some af \<Rightarrow> (w\<lparr>root_acroform := Some (set_need_appearances_writer af)\<rparr>, [])
         | None \<Rightarrow> (w, [NoAcroFormFound]))"

text \<open>Lines 162 to 197 for one row, from the empty dictionary.\<close>

definition field_assignment_set ::
  "(cell \<Rightarrow> timestamp option) \<Rightarrow> string list \<Rightarrow> cell list \<Rightarrow>
   (string, string) dict \<Rightarrow> (string, checkbox_options) dict \<Rightarrow> string list \<Rightarrow> field_values" where
  "field_assignment_set to_datetime cols row field_mapping checkbox_mappings date_fields =
     fst (resolve_fields to_datetime cols row field_mapping checkbox_mappings date_fields ([], []))"

definition resolution_log ::
  "(cell \<Rightarrow> timestamp option) \<Rightarrow> string list \<Rightarrow> cell list \<Rightarrow>
   (string, string) dict \<Rightarrow> (string, checkbox_options) dict \<Rightarrow> string list \<Rightarrow> log_record list" where
  "resolution_log to_datetime cols row field_mapping checkbox_mappings date_fields =
     snd (resolve_fields to_datetime cols row field_mapping checkbox_mappings date_fields ([], []))"

text \<open>Lines 203 to 206: the name of the output file below the output folder.\<close>

definition output_filename :: "string list \<Rightarrow> cell list \<Rightarrow> nat \<Rightarrow> string" where
  "output_filename cols row index =
     (if ''filename'' \<in> set cols then str (row_at cols row ''filename'') @ ''.pdf''
      else ''output_'' @ str_nat (index + 1) @ ''.pdf'')"

text \<open>
  The body of the loop over the rows: what this row logs, calls and writes, and the
  exception that left the body, if any. \<open>writer.pages[0]\<close> raises \<open>IndexError\<close> on a
  template without pages.
\<close>

definition fill_row ::
  "('p, 'o) env \<Rightarrow> (cell \<Rightarrow> timestamp option) \<Rightarrow> string list \<Rightarrow>
   (string, string) dict \<Rightarrow> (string, checkbox_options) dict \<Rightarrow> string list \<Rightarrow>
   nat \<Rightarrow> cell list \<Rightarrow> ('p, 'o) run \<times> error option" where
  "fill_row e to_datetime cols field_mapping checkbox_mappings date_fields index row =
     (case PdfReader e index of
        Inl err \<Rightarrow> (empty_run, Some err)
      | Inr rd \<Rightarrow>
          (case copy_template rd of (w, log1) \<Rightarrow>
          (case resolve_fields to_datetime cols row field_mapping checkbox_mappings date_fields
                  ([], log1) of (field_values, log2) \<Rightarrow>
          (case pages w of
             [] \<Rightarrow> (\<lparr>log = log2, calls = [], files = []\<rparr>, Some IndexError)
           | p # ps \<Rightarrow>
               (case update_page_form_field_values e w 0 field_values of
                  Inl err \<Rightarrow> (\<lparr>log = log2, calls = [(0, field_values)], files = []\<rparr>, Some err)
                | Inr w' \<Rightarrow>
                    (let name = output_filename cols row index
                     in (case write_pdf e index name w' of
                           Some err \<Rightarrow>
                             (\<lparr>log = log2, calls = [(0, field_values)], files = []\<rparr>, Some err)
                         | None \<Rightarrow>
                             (\<lparr>log = log2 @ [PdfSavedAs name], calls = [(0, field_values)],
                               files = [(name, w')]\<rparr>, None))))))))"

text \<open>The loop: the rows in order, each with its index, up to the first exception.\<close>

fun fill_rows ::
  "('p, 'o) env \<Rightarrow> (cell \<Rightarrow> timestamp option) \<Rightarrow> string list \<Rightarrow>
   (string, string) dict \<Rightarrow> (string, checkbox_options) dict \<Rightarrow> string list \<Rightarrow>
   nat \<Rightarrow> cell list list \<Rightarrow> ('p, 'o) run \<times> error option" where
  "fill_rows e to_datetime cols fm cm dfs index [] = (empty_run, None)"
| "fill_rows e to_datetime cols fm cm dfs index (row # rest) =
     (case fill_row e to_datetime cols fm cm dfs index row of
        (d, Some err) \<Rightarrow> (d, Some err)
      | (d, None) \<Rightarrow>
          (case fill_rows e to_datetime cols fm cm dfs (index + 1) rest of
             (r, x) \<Rightarrow> (append_run d r, x)))"

text \<open>
  \<open>fill_pdf_with_data\<close>: the output folder is created first, outside the \<open>try\<close>; an
  exception of the loop is logged and raised again.
\<close>

definition fill_pdf_with_data ::
  "('p, 'o) env \<Rightarrow> (cell \<Rightarrow> timestamp option) \<Rightarrow> dataframe \<Rightarrow>
   (string, string) dict \<Rightarrow> (string, checkbox_options) dict \<Rightarrow> string list \<Rightarrow>
   ('p, 'o) run \<times> error option" where
  "fill_pdf_with_data e to_datetime df field_mapping checkbox_mappings date_fields =
     (case mkdir e of
        Some err \<Rightarrow> (empty_run, Some err)
      | None \<Rightarrow>
          (case fill_rows e to_datetime (columns df) field_mapping checkbox_mappings
                  date_fields 0 (rows df) of
             (r, Some err) \<Rightarrow>
               (append_run r \<lparr>log = [ErrorFillingPdf err], calls = [], files = []\<rparr>, Some err)
           | (r, None) \<Rightarrow> (r, None)))"

section \<open>Notions used in the statements\<close>

text \<open>
  The pairs that the checkbox entry of a column merges into \<open>field_values\<close> for a row:
  those of the option that the normalized cell names, none when the column is absent
  or the value names no option with a \<open>fields\<close> entry.
\<close>

definition fields_to_set ::
  "string list \<Rightarrow> cell list \<Rightarrow> string \<times> checkbox_options \<Rightarrow> field_values" where
  "fields_to_set cols row entry =
     (case entry of (excel_column, options) \<Rightarrow>
        if excel_column \<in> set cols then
          (case dict_get options (lower (strip (str (row_at cols row excel_column)))) of
             Some checkbox_info \<Rightarrow>
               (case dict_get checkbox_info ''fields'' of Some fs \<Rightarrow> fs | None \<Rightarrow> [])
           | None \<Rightarrow> [])
        else [])"

text \<open>The field identifiers of a checkbox group: those of all its options.\<close>

definition group_field_ids :: "checkbox_options \<Rightarrow> string list" where
  "group_field_ids options =
     concat (map (\<lambda>(opt, info). case dict_get info ''fields'' of
                                   Some fs \<Rightarrow> dict_keys fs | None \<Rightarrow> [])
       options)"

text \<open>
  The invariant of the mapping tables: no two columns of the field mapping have the
  same target, no target is a field of a checkbox group (the source keeps the
  checkboxes out of \<open>FIELD_MAPPING\<close>), and no two groups share a field.
\<close>

definition unique_targets ::
  "(string, string) dict \<Rightarrow> (string, checkbox_options) dict \<Rightarrow> bool" where
  "unique_targets field_mapping checkbox_mappings \<longleftrightarrow>
     distinct (map snd field_mapping @
               concat (map (\<lambda>(c, options). remdups (group_field_ids options))
                 checkbox_mappings))"

text \<open>
  The contract of the library's \<open>update_page_form_field_values\<close> for the page it is
  given: the writer it returns has the same number of pages, and every other page as
  before.
\<close>

definition page_local ::
  "(('p, 'o) writer \<Rightarrow> nat \<Rightarrow> field_values \<Rightarrow> error + ('p, 'o) writer) \<Rightarrow> bool" where
  "page_local upd \<longleftrightarrow>
     (\<forall>w i fv w'. upd w i fv = Inr w' \<longrightarrow>
        length (pages w') = length (pages w) \<and>
        (\<forall>j < length (pages w). j \<noteq> i \<longrightarrow> pages w' ! j = pages w ! j))"

text \<open>
  The calls into the library and the file system succeed for a row: the template opens
  and has a page, \<open>update_page_form_field_values\<close> returns on the writer built from it
  and the resolved values, and the output file is written.
\<close>

definition library_calls_succeed ::
  "('p, 'o) env \<Rightarrow> (cell \<Rightarrow> timestamp option) \<Rightarrow> string list \<Rightarrow>
   (string, string) dict \<Rightarrow> (string, checkbox_options) dict \<Rightarrow> string list \<Rightarrow>
   nat \<Rightarrow> cell list \<Rightarrow> bool" where
  "library_calls_succeed e to_datetime cols field_mapping checkbox_mappings date_fields index row =
     (case PdfReader e index of
        Inl err \<Rightarrow> False
      | Inr rd \<Rightarrow>
          reader_pages rd \<noteq> [] \<and>
          (case update_page_form_field_values e (fst (copy_template rd)) 0
                  (field_assignment_set to_datetime cols row field_mapping checkbox_mappings
                     date_fields) of
             Inl err \<Rightarrow> False
           | Inr w' \<Rightarrow> write_pdf e index (output_filename cols row index) w' = None))"

subsection \<open>A small environment\<close>

text \<open>
  An instance of the environment for the examples: a page is the list of its widgets,
  each a field name with its value; the template has two pages and a form dictionary;
  updating a page sets the values of its widgets that the dictionary names; every file
  can be written. The parser reads the dates written \<open>YYYY-MM-DD\<close> and timestamps.
\<close>

type_synonym widgets = "(string, string) dict"

definition example_update ::
  "(widgets, unit) writer \<Rightarrow> nat \<Rightarrow> field_values \<Rightarrow> error + (widgets, unit) writer" where
  "example_update w i fv =
     (if i < length (pages w)
      then Inr (w\<lparr>pages := (pages w)
                  [i := map (\<lambda>(n, v). (n, case dict_get fv n of Some v' \<Rightarrow> v' | None \<Rightarrow> v))
                          (pages w ! i)]\<rparr>)
      else Inl IndexError)"

definition example_reader :: "(widgets, unit) reader" where
  "example_reader =
     \<lparr>reader_pages = [[(''f1_01[0]'', []), (''f1_07[0]'', []), (''c1_1[0]'', []),
                       (''c1_1[1]'', [])],
                      [(''f1_01[0]'', []), (''c1_1[0]'', [])]],
      reader_acroform = Some []\<rparr>"

definition example_env :: "(widgets, unit) env" where
  "example_env =
     \<lparr>mkdir = None,
      PdfReader = (\<lambda>index. Inr example_reader),
      update_page_form_field_values = example_update,
      write_pdf = (\<lambda>index name w. None)\<rparr>"

definition digit_value :: "char \<Rightarrow> nat option" where
  "digit_value c =
     (let n = (of_char c :: nat) in if 48 \<le> n \<and> n \<le> 57 then Some (n - 48) else None)"

fun example_to_datetime :: "cell \<Rightarrow> timestamp option" where
  "example_to_datetime (CTimestamp t) = Some t"
| "example_to_datetime (CStr [y1, y2, y3, y4, d1, m1, m2, d2, a1, a2]) =
     (case map digit_value [y1, y2, y3, y4, m1, m2, a1, a2] of
        [Some p, Some q, Some r, Some s, Some m, Some n, Some a, Some b] \<Rightarrow>
          (let t = \<lparr>year = 1000 * p + 100 * q + 10 * r + s, month = 10 * m + n,
                    day = 10 * a + b, hour = 0, minute = 0, second = 0\<rparr>
           in if d1 = CHR ''-'' \<and> d2 = CHR ''-'' \<and> valid_timestamp t then Some t else None)
      | _ \<Rightarrow> None)"
| "example_to_datetime _ = None"

text \<open>
  Two rows of a frame with a \<open>filename\<close> column: one with a name, a date and a
  recognised checkbox value, one with an empty name, a date that the parser does not
  read and an unknown checkbox value. A frame of three rows without that column. An
  environment in which the file of the second row cannot be written.
\<close>

definition example_columns :: "string list" where
  "example_columns = [''Name(s)'', ''Date in Service'', ''more than $25,000?'', ''filename'']"

definition example_row :: "cell list" where
  "example_row = [CStr ''Jane Doe'', CStr ''2023-04-15'', CStr ''Yes'', CStr ''jane'']"

definition example_row2 :: "cell list" where
  "example_row2 = [CNaN, CStr ''next week'', CStr ''maybe'', CStr ''john'']"

definition example_frame :: dataframe where
  "example_frame = \<lparr>columns = example_columns, rows = [example_row, example_row2]\<rparr>"

definition example_frame3 :: dataframe where
  "example_frame3 =
     \<lparr>columns = [''Name(s)''], rows = [[CStr ''Ann''], [CStr ''Bob''], [CStr ''Cy'']]\<rparr>"

definition example_env2 :: "(widgets, unit) env" where
  "example_env2 =
     \<lparr>mkdir = None,
      PdfReader = (\<lambda>index. Inr example_reader),
      update_page_form_field_values = example_update,
      write_pdf = (\<lambda>index name w. if index = 1 then Some (LibraryError ''disk full'') else None)\<rparr>"

text \<open>
  The parser on a given day: \<open>pd.to_datetime\<close> reads the words \<open>today\<close> and \<open>now\<close>
  as the time of the call. A day of November 2026. A frame whose only cell is the word
  \<open>today\<close> in the date column, and one whose only cell is a timestamp of the year 999.
\<close>

fun example_to_datetime_on :: "timestamp \<Rightarrow> cell \<Rightarrow> timestamp option" where
  "example_to_datetime_on now (CStr s) =
     (if s = ''today'' \<or> s = ''now'' then Some now else example_to_datetime (CStr s))"
| "example_to_datetime_on now v = example_to_datetime v"

definition example_day :: "nat \<Rightarrow> timestamp" where
  "example_day d = \<lparr>year = 2026, month = 11, day = d, hour = 0, minute = 0, second = 0\<rparr>"

definition example_frame_today :: dataframe where
  "example_frame_today = \<lparr>columns = [''Date in Service''], rows = [[CStr ''today'']]\<rparr>"

definition example_frame_999 :: dataframe where
  "example_frame_999 =
     \<lparr>columns = [''Date in Service''],
      rows = [[CTimestamp \<lparr>year = 999, month = 1, day = 2, hour = 0, minute = 0,
                             second = 0\<rparr>]]\<rparr>"

section \<open>Dictionaries: what an assignment changes\<close>

lemma map_of_dict_set: "map_of (dict_set d k v) = (map_of d)(k \<mapsto> v)"
  by (induction d) (auto simp: fun_eq_iff)

lemma map_of_dict_update_other:
  "k \<notin> fst ` set e \<Longrightarrow> map_of (dict_update d e) k = map_of d k"
  by (induction d e rule: dict_update.induct) (auto simp: map_of_dict_set)

lemma map_of_dict_update:
  "distinct (map fst e) \<Longrightarrow> map_of (dict_update d e) = map_of d ++ map_of e"
proof (induction d e rule: dict_update.induct)
  case (1 d)
  then show ?case by simp
next
  case (2 d k v e)
  then have k: "k \<notin> fst ` set e" and IH: "map_of (dict_update (dict_set d k v) e) = map_of (dict_set d k v) ++ map_of e"
    by auto
  have "map_of e k = None" using k by (simp add: map_of_eq_None_iff)
  then show ?case
    by (auto simp: IH map_of_dict_set fun_eq_iff map_add_def split: option.splits)
qed

lemma dict_get_dict_set: "dict_get (dict_set d k v) k' = (if k' = k then Some v else dict_get d k')"
  by (simp add: dict_get_def map_of_dict_set)

lemma dict_get_dict_update_other:
  "k \<notin> set (dict_keys e) \<Longrightarrow> dict_get (dict_update d e) k = dict_get d k"
  by (simp add: dict_get_def dict_keys_def map_of_dict_update_other)

lemma dict_get_dict_update_keeps:
  "dict_get d k \<noteq> None \<Longrightarrow> dict_get (dict_update d e) k \<noteq> None"
  by (induction d e rule: dict_update.induct) (auto simp: dict_get_dict_set)

lemma dict_get_dict_update_in:
  "distinct (dict_keys e) \<Longrightarrow> (k, v) \<in> set e \<Longrightarrow> dict_get (dict_update d e) k = Some v"
  by (simp add: dict_get_def dict_keys_def map_of_dict_update map_add_def)

section \<open>The loop over the field mapping\<close>

lemma regular_field_log:
  "regular_field td cols row dfs (fv, lg) e =
     (fst (regular_field td cols row dfs (fv, []) e), lg @ snd (regular_field td cols row dfs (fv, []) e))"
  by (cases e) (simp add: regular_field_def Let_def split: option.splits)

lemma regular_field_other:
  "f \<noteq> snd e \<Longrightarrow> dict_get (fst (regular_field td cols row dfs st e)) f = dict_get (fst st) f"
  by (cases e; cases st) (simp add: regular_field_def Let_def dict_get_dict_set split: option.splits)

lemma regular_field_keeps:
  "dict_get (fst st) f \<noteq> None \<Longrightarrow> dict_get (fst (regular_field td cols row dfs st e)) f \<noteq> None"
  by (cases e; cases st) (simp add: regular_field_def Let_def dict_get_dict_set split: option.splits)

lemma regular_field_absent_column:
  "fst e \<notin> set cols \<Longrightarrow> fst (regular_field td cols row dfs st e) = fst st"
  by (cases e; cases st) (simp add: regular_field_def)

lemma foldl_regular_field_other:
  "f \<notin> snd ` set fm \<Longrightarrow>
   dict_get (fst (foldl (regular_field td cols row dfs) st fm)) f = dict_get (fst st) f"
  by (induction fm arbitrary: st) (simp_all add: regular_field_other)

lemma foldl_regular_field_keeps:
  "dict_get (fst st) f \<noteq> None \<Longrightarrow>
   dict_get (fst (foldl (regular_field td cols row dfs) st fm)) f \<noteq> None"
proof (induction fm arbitrary: st)
  case Nil
  then show ?case by simp
next
  case (Cons e fm)
  from Cons.prems have "dict_get (fst (regular_field td cols row dfs st e)) f \<noteq> None"
    by (rule regular_field_keeps)
  from Cons.IH [OF this] show ?case by simp
qed

lemma foldl_regular_field_absent:
  "\<forall>c. (c, f) \<in> set fm \<longrightarrow> c \<notin> set cols \<Longrightarrow>
   dict_get (fst (foldl (regular_field td cols row dfs) st fm)) f = dict_get (fst st) f"
proof (induction fm arbitrary: st)
  case Nil
  then show ?case by simp
next
  case (Cons e fm)
  have step: "dict_get (fst (regular_field td cols row dfs st e)) f = dict_get (fst st) f"
  proof (cases "snd e = f")
    case True
    then have "(fst e, f) \<in> set (e # fm)" by (cases e) simp
    then have "fst e \<notin> set cols" using Cons.prems by blast
    then show ?thesis by (simp add: regular_field_absent_column)
  next
    case False
    then show ?thesis by (simp add: regular_field_other)
  qed
  have "\<forall>c. (c, f) \<in> set fm \<longrightarrow> c \<notin> set cols" using Cons.prems by simp
  then show ?case using Cons.IH step by simp
qed

lemma foldl_regular_field_log:
  "foldl (regular_field td cols row dfs) (fv, lg) fm =
     (fst (foldl (regular_field td cols row dfs) (fv, []) fm),
      lg @ snd (foldl (regular_field td cols row dfs) (fv, []) fm))"
proof (induction fm arbitrary: fv lg)
  case Nil
  then show ?case by simp
next
  case (Cons e fm)
  obtain fv' lg' where s: "regular_field td cols row dfs (fv, []) e = (fv', lg')"
    by (cases "regular_field td cols row dfs (fv, []) e")
  have s': "regular_field td cols row dfs (fv, lg) e = (fv', lg @ lg')"
    using regular_field_log [of td cols row dfs fv lg e] s by simp
  show ?case
    using Cons.IH [of fv' "lg @ lg'"] Cons.IH [of fv' lg'] s s' by simp
qed

section \<open>The loop over the checkbox mappings\<close>

lemma fields_key_iff: "''fields'' \<in> set (dict_keys info) \<longleftrightarrow> dict_get info ''fields'' \<noteq> None"
  by (simp add: dict_keys_def dict_get_def map_of_eq_None_iff)

lemma checkbox_field_fields:
  "fst (checkbox_field cols row st e) = dict_update (fst st) (fields_to_set cols row e)"
  by (cases e; cases st)
     (auto simp: checkbox_field_def fields_to_set_def Let_def fields_key_iff dict_get_def
           split: option.splits)

lemma checkbox_field_log:
  "checkbox_field cols row (fv, lg) e =
     (fst (checkbox_field cols row (fv, []) e), lg @ snd (checkbox_field cols row (fv, []) e))"
  by (cases e) (simp add: checkbox_field_def Let_def split: option.splits)

lemma foldl_checkbox_field_fields:
  "fst (foldl (checkbox_field cols row) st cm) =
     foldl dict_update (fst st) (map (fields_to_set cols row) cm)"
  by (induction cm arbitrary: st) (simp_all add: checkbox_field_fields)

lemma foldl_checkbox_field_log:
  "foldl (checkbox_field cols row) (fv, lg) cm =
     (fst (foldl (checkbox_field cols row) (fv, []) cm),
      lg @ snd (foldl (checkbox_field cols row) (fv, []) cm))"
proof (induction cm arbitrary: fv lg)
  case Nil
  then show ?case by simp
next
  case (Cons e cm)
  obtain fv' lg' where s: "checkbox_field cols row (fv, []) e = (fv', lg')"
    by (cases "checkbox_field cols row (fv, []) e")
  have s': "checkbox_field cols row (fv, lg) e = (fv', lg @ lg')"
    using checkbox_field_log [of cols row fv lg e] s by simp
  show ?case
    using Cons.IH [of fv' "lg @ lg'"] Cons.IH [of fv' lg'] s s' by simp
qed

lemma foldl_dict_update_other:
  "\<forall>e \<in> set es. k \<notin> set (dict_keys e) \<Longrightarrow> dict_get (foldl dict_update d es) k = dict_get d k"
  by (induction es arbitrary: d) (simp_all add: dict_get_dict_update_other)

lemma foldl_dict_update_keeps:
  "dict_get d k \<noteq> None \<Longrightarrow> dict_get (foldl dict_update d es) k \<noteq> None"
proof (induction es arbitrary: d)
  case Nil
  then show ?case by simp
next
  case (Cons e es)
  from Cons.prems have "dict_get (dict_update d e) k \<noteq> None"
    by (rule dict_get_dict_update_keeps)
  from Cons.IH [OF this] show ?case by simp
qed

lemma fields_to_set_group:
  "set (dict_keys (fields_to_set cols row (c, options))) \<subseteq> set (group_field_ids options)"
proof (cases "c \<in> set cols")
  case False
  then show ?thesis by (simp add: fields_to_set_def dict_keys_def)
next
  case True
  show ?thesis
  proof (cases "dict_get options (lower (strip (str (row_at cols row c))))")
    case None
    then show ?thesis using True by (simp add: fields_to_set_def dict_keys_def)
  next
    case (Some info)
    then have mem: "(lower (strip (str (row_at cols row c))), info) \<in> set options"
      by (simp add: dict_get_def map_of_SomeD)
    show ?thesis
    proof (cases "dict_get info ''fields''")
      case None
      then show ?thesis using True Some by (simp add: fields_to_set_def dict_keys_def)
    next
      case (Some fs)
      then have "fields_to_set cols row (c, options) = fs"
        using True \<open>dict_get options _ = Some info\<close> by (simp add: fields_to_set_def)
      moreover have "set (dict_keys fs) \<subseteq> set (group_field_ids options)"
        using mem Some by (force simp: group_field_ids_def)
      ultimately show ?thesis by simp
    qed
  qed
qed

section \<open>The resolution of a row and the loop over the rows\<close>

lemma resolve_fields_log:
  "resolve_fields td cols row fm cm dfs (fv, lg) =
     (fst (resolve_fields td cols row fm cm dfs (fv, [])),
      lg @ snd (resolve_fields td cols row fm cm dfs (fv, [])))"
proof -
  obtain fv1 lg1 where r: "foldl (regular_field td cols row dfs) (fv, []) fm = (fv1, lg1)"
    by (cases "foldl (regular_field td cols row dfs) (fv, []) fm")
  have r': "foldl (regular_field td cols row dfs) (fv, lg) fm = (fv1, lg @ lg1)"
    using foldl_regular_field_log [of td cols row dfs fv lg fm] r by simp
  show ?thesis
    using foldl_checkbox_field_log [of cols row fv1 "lg @ lg1" cm]
      foldl_checkbox_field_log [of cols row fv1 lg1 cm] r r'
    by (simp add: resolve_fields_def)
qed

lemma resolve_fields_from:
  "resolve_fields td cols row fm cm dfs ([], lg) =
     (field_assignment_set td cols row fm cm dfs, lg @ resolution_log td cols row fm cm dfs)"
  using resolve_fields_log [of td cols row fm cm dfs "[]" lg]
  by (simp add: field_assignment_set_def resolution_log_def)

lemma foldl_regular_field_log_mono:
  "x \<in> set (snd st) \<Longrightarrow> x \<in> set (snd (foldl (regular_field td cols row dfs) st fm))"
  using foldl_regular_field_log [of td cols row dfs "fst st" "snd st" fm] by simp

lemma foldl_checkbox_field_log_mono:
  "x \<in> set (snd st) \<Longrightarrow> x \<in> set (snd (foldl (checkbox_field cols row) st cm))"
  using foldl_checkbox_field_log [of cols row "fst st" "snd st" cm] by simp

lemma pages_copy_template: "pages (fst (copy_template rd)) = reader_pages rd"
proof -
  have "pages (foldl add_page w ps) = pages w @ ps" for w :: "('a, 'b) writer" and ps
    by (induction ps arbitrary: w) (simp_all add: add_page_def)
  then show ?thesis
    by (simp add: copy_template_def Let_def PdfWriter_def split: option.splits)
qed

lemma fill_row_saved:
  assumes "PdfReader e index = Inr rd"
    and "reader_pages rd \<noteq> []"
    and "update_page_form_field_values e (fst (copy_template rd)) 0
           (field_assignment_set td cols row fm cm dfs) = Inr w'"
    and "write_pdf e index (output_filename cols row index) w' = None"
  shows "fill_row e td cols fm cm dfs index row =
     (\<lparr>log = snd (copy_template rd) @ resolution_log td cols row fm cm dfs @
              [PdfSavedAs (output_filename cols row index)],
       calls = [(0, field_assignment_set td cols row fm cm dfs)],
       files = [(output_filename cols row index, w')]\<rparr>, None)"
proof -
  obtain w lg where c: "copy_template rd = (w, lg)" by (cases "copy_template rd")
  have "pages w \<noteq> []" using assms(2) pages_copy_template [of rd] c by simp
  then obtain p ps where p: "pages w = p # ps" by (cases "pages w") auto
  show ?thesis
    using assms c p by (simp add: fill_row_def resolve_fields_from Let_def)
qed

lemma fill_row_cases:
  assumes "fill_row e td cols fm cm dfs index row = (d, x)"
  shows "(x = None \<longrightarrow>
            (\<exists>rd w'. PdfReader e index = Inr rd \<and>
               update_page_form_field_values e (fst (copy_template rd)) 0
                 (field_assignment_set td cols row fm cm dfs) = Inr w' \<and>
               files d = [(output_filename cols row index, w')]) \<and>
            calls d = [(0, field_assignment_set td cols row fm cm dfs)])
       \<and> (x \<noteq> None \<longrightarrow> files d = [] \<and>
            (calls d = [] \<or> calls d = [(0, field_assignment_set td cols row fm cm dfs)]))"
  using assms
  by (auto simp: fill_row_def resolve_fields_from empty_run_def Let_def
      split: sum.splits prod.splits list.splits option.splits)


lemma fill_rows_files:
  "fill_rows e td cols fm cm dfs k rs = (r, x) \<Longrightarrow> i < length (files r) \<Longrightarrow>
   i < length rs \<and> fst (files r ! i) = output_filename cols (rs ! i) (k + i) \<and>
   (\<exists>rd. PdfReader e (k + i) = Inr rd \<and>
      update_page_form_field_values e (fst (copy_template rd)) 0
        (field_assignment_set td cols (rs ! i) fm cm dfs) = Inr (snd (files r ! i)))"
proof (induction rs arbitrary: k r x i)
  case Nil
  then show ?case by (auto simp: empty_run_def)
next
  case (Cons row rest)
  obtain d y where d: "fill_row e td cols fm cm dfs k row = (d, y)"
    by (cases "fill_row e td cols fm cm dfs k row")
  show ?case
  proof (cases y)
    case (Some err)
    then have "r = d" using Cons.prems(1) d by simp
    moreover have "files d = []" using fill_row_cases [OF d] Some by simp
    ultimately show ?thesis using Cons.prems(2) by simp
  next
    case None
    obtain r' x' where r': "fill_rows e td cols fm cm dfs (k + 1) rest = (r', x')"
      by (cases "fill_rows e td cols fm cm dfs (k + 1) rest")
    have r: "r = append_run d r'" using Cons.prems(1) d None r' by simp
    from fill_row_cases [OF d] None obtain rd w' where
      rd: "PdfReader e k = Inr rd"
      and upd: "update_page_form_field_values e (fst (copy_template rd)) 0
                 (field_assignment_set td cols row fm cm dfs) = Inr w'"
      and fd: "files d = [(output_filename cols row k, w')]"
      by auto
    have fr: "files r = (output_filename cols row k, w') # files r'"
      using r fd by (simp add: append_run_def)
    show ?thesis
    proof (cases i)
      case 0
      then show ?thesis using fr rd upd by simp
    next
      case (Suc j)
      then have "j < length (files r')" using Cons.prems(2) fr by simp
      from Cons.IH [OF r' this] show ?thesis using Suc fr by simp
    qed
  qed
qed

lemma fill_rows_calls:
  "fill_rows e td cols fm cm dfs k rs = (r, x) \<Longrightarrow> i < length (calls r) \<Longrightarrow>
   i < length rs \<and> calls r ! i = (0, field_assignment_set td cols (rs ! i) fm cm dfs)"
proof (induction rs arbitrary: k r x i)
  case Nil
  then show ?case by (auto simp: empty_run_def)
next
  case (Cons row rest)
  obtain d y where d: "fill_row e td cols fm cm dfs k row = (d, y)"
    by (cases "fill_row e td cols fm cm dfs k row")
  show ?case
  proof (cases y)
    case (Some err)
    then have "r = d" using Cons.prems(1) d by simp
    moreover have "calls d = [] \<or> calls d = [(0, field_assignment_set td cols row fm cm dfs)]"
      using fill_row_cases [OF d] Some by simp
    ultimately show ?thesis using Cons.prems(2) by auto
  next
    case None
    obtain r' x' where r': "fill_rows e td cols fm cm dfs (k + 1) rest = (r', x')"
      by (cases "fill_rows e td cols fm cm dfs (k + 1) rest")
    have r: "r = append_run d r'" using Cons.prems(1) d None r' by simp
    have cd: "calls d = [(0, field_assignment_set td cols row fm cm dfs)]"
      using fill_row_cases [OF d] None by simp
    have cr: "calls r = (0, field_assignment_set td cols row fm cm dfs) # calls r'"
      using r cd by (simp add: append_run_def)
    show ?thesis
    proof (cases i)
      case 0
      then show ?thesis using cr by simp
    next
      case (Suc j)
      then have "j < length (calls r')" using Cons.prems(2) cr by simp
      from Cons.IH [OF r' this] show ?thesis using Suc cr by simp
    qed
  qed
qed

lemma fill_rows_complete:
  "fill_rows e td cols fm cm dfs k rs = (r, None) \<Longrightarrow> length (files r) = length rs"
proof (induction rs arbitrary: k r)
  case Nil
  then show ?case by (auto simp: empty_run_def)
next
  case (Cons row rest)
  obtain d y where d: "fill_row e td cols fm cm dfs k row = (d, y)"
    by (cases "fill_row e td cols fm cm dfs k row")
  obtain r' x' where r': "fill_rows e td cols fm cm dfs (k + 1) rest = (r', x')"
    by (cases "fill_rows e td cols fm cm dfs (k + 1) rest")
  have y: "y = None" using Cons.prems d by (cases y) simp_all
  then have x': "x' = None" and r: "r = append_run d r'" using Cons.prems d r' by simp_all
  have "length (files d) = 1" using fill_row_cases [OF d] y by auto
  moreover have "length (files r') = length rest" using Cons.IH r' x' by simp
  ultimately show ?case using r by (simp add: append_run_def)
qed

lemma fill_pdf_with_data_rows:
  assumes "fill_pdf_with_data e td df fm cm dfs = (r, x)"
  shows "(files r = [] \<and> calls r = [] \<and> x \<noteq> None) \<or>
         (\<exists>r' x'. fill_rows e td (columns df) fm cm dfs 0 (rows df) = (r', x') \<and>
            files r = files r' \<and> calls r = calls r' \<and> (x = None \<longrightarrow> x' = None))"
  using assms
  by (auto simp: fill_pdf_with_data_def append_run_def empty_run_def
      split: option.splits prod.splits)

section \<open>The rendering of a date\<close>

lemma str_nat_1: "n < 10 \<Longrightarrow> str_nat n = [digit_char n]"
  by (simp add: str_nat.simps)

lemma str_nat_2: "10 \<le> n \<Longrightarrow> n < 100 \<Longrightarrow> str_nat n = [digit_char (n div 10), digit_char (n mod 10)]"
  by (subst str_nat.simps) (simp add: str_nat_1)

lemma str_nat_3:
  "100 \<le> n \<Longrightarrow> n < 1000 \<Longrightarrow>
   str_nat n = [digit_char (n div 100), digit_char (n div 10 mod 10), digit_char (n mod 10)]"
  by (subst str_nat.simps) (simp add: str_nat_2 div_mult2_eq [symmetric])

lemma str_nat_4:
  "1000 \<le> n \<Longrightarrow> n < 10000 \<Longrightarrow>
   str_nat n = [digit_char (n div 1000), digit_char (n div 100 mod 10),
                digit_char (n div 10 mod 10), digit_char (n mod 10)]"
  by (subst str_nat.simps) (simp add: str_nat_3 div_mult2_eq [symmetric])

lemma zfill_2: "n < 100 \<Longrightarrow> zfill 2 (str_nat n) = [digit_char (n div 10), digit_char (n mod 10)]"
proof (cases "n < 10")
  case True
  then show ?thesis by (simp add: zfill_def str_nat_1 digit_char_def)
next
  case False
  assume "n < 100"
  with False show ?thesis by (simp add: zfill_def str_nat_2)
qed

lemma strftime_mdY_form:
  assumes "valid_timestamp t" and "1000 \<le> year t" and "year t \<le> 9999"
  shows "strftime_mdY t =
     [digit_char (month t div 10), digit_char (month t mod 10), CHR ''/'',
      digit_char (day t div 10), digit_char (day t mod 10), CHR ''/'',
      digit_char (year t div 1000), digit_char (year t div 100 mod 10),
      digit_char (year t div 10 mod 10), digit_char (year t mod 10)]"
proof -
  have m: "month t < 100" and d: "day t < 100"
    using assms(1) by (simp_all add: valid_timestamp_def)
  have y: "1000 \<le> year t" "year t < 10000"
    using assms(2,3) by simp_all
  show ?thesis
    by (simp add: strftime_mdY_def zfill_2 [OF m] zfill_2 [OF d] str_nat_4 [OF y])
qed

lemma strftime_mdY_year:
  assumes "valid_timestamp t"
  shows "strftime_mdY t =
     [digit_char (month t div 10), digit_char (month t mod 10), CHR ''/'',
      digit_char (day t div 10), digit_char (day t mod 10), CHR ''/''] @ str_nat (year t)"
proof -
  have m: "month t < 100" and d: "day t < 100"
    using assms by (simp_all add: valid_timestamp_def)
  show ?thesis
    by (simp add: strftime_mdY_def zfill_2 [OF m] zfill_2 [OF d])
qed

section \<open>The date parser in the resolution\<close>

lemma regular_field_parser_agree:
  assumes "\<forall>c \<in> set dfs. td1 (row_at cols row c) = td2 (row_at cols row c)"
  shows "regular_field td1 cols row dfs st e = regular_field td2 cols row dfs st e"
  using assms
  by (cases e; cases st) (auto simp: regular_field_def Let_def split: option.splits)

lemma field_assignment_set_parser_agree:
  assumes "\<forall>c \<in> set dfs. td1 (row_at cols row c) = td2 (row_at cols row c)"
  shows "field_assignment_set td1 cols row fm cm dfs = field_assignment_set td2 cols row fm cm dfs"
proof -
  have "regular_field td1 cols row dfs = regular_field td2 cols row dfs"
    by (intro ext) (rule regular_field_parser_agree [OF assms])
  then show ?thesis
    by (simp add: field_assignment_set_def resolve_fields_def)
qed

section \<open>What an entry leaves in the final assignment set\<close>

lemma fill_row_produced:
  "snd (fill_row e td cols fm cm dfs index row) = None \<longleftrightarrow>
     library_calls_succeed e td cols fm cm dfs index row"
proof -
  have p: "pages w = [] \<longleftrightarrow> reader_pages rd = []" if "copy_template rd = (w, lg)" for rd :: "('a, 'b) reader" and w lg
    using pages_copy_template [of rd] that by simp
  show ?thesis
    by (auto simp: fill_row_def library_calls_succeed_def resolve_fields_from Let_def empty_run_def
        dest: p split: sum.splits prod.splits list.splits option.splits)
qed

lemma fill_row_file:
  assumes "library_calls_succeed e td cols fm cm dfs index row"
  shows "map fst (files (fst (fill_row e td cols fm cm dfs index row))) =
           [output_filename cols row index]"
proof -
  obtain d x where d: "fill_row e td cols fm cm dfs index row = (d, x)"
    by (cases "fill_row e td cols fm cm dfs index row")
  then have "x = None" using assms fill_row_produced [of e td cols fm cm dfs index row] by simp
  then show ?thesis using fill_row_cases [OF d] d by auto
qed

lemma unique_targets_distinct: "unique_targets fm cm \<Longrightarrow> distinct (map snd fm)"
  by (simp add: unique_targets_def)

lemma unique_targets_group:
  assumes "unique_targets fm cm" and "f \<in> snd ` set fm" and "(c, options) \<in> set cm"
  shows "f \<notin> set (group_field_ids options)"
proof
  assume "f \<in> set (group_field_ids options)"
  then have "f \<in> set (concat (map (\<lambda>(c, options). remdups (group_field_ids options)) cm))"
    using assms(3) by force
  then show False using assms(1,2) by (auto simp: unique_targets_def)
qed

lemma unique_targets_fields_to_set:
  assumes "unique_targets fm cm" and "f \<in> snd ` set fm" and "entry \<in> set cm"
  shows "f \<notin> set (dict_keys (fields_to_set cols row entry))"
proof -
  obtain c options where e: "entry = (c, options)" by (cases entry)
  show ?thesis
    using unique_targets_group [OF assms(1,2), of c options] assms(3) e
      fields_to_set_group [of cols row c options] by auto
qed

lemma checkbox_pass_other:
  assumes "unique_targets fm cm" and "f \<in> snd ` set fm"
  shows "dict_get (fst (foldl (checkbox_field cols row) st cm)) f = dict_get (fst st) f"
proof -
  have "\<forall>x \<in> set (map (fields_to_set cols row) cm). f \<notin> set (dict_keys x)"
    using unique_targets_fields_to_set [OF assms] by auto
  then show ?thesis
    by (simp add: foldl_checkbox_field_fields foldl_dict_update_other)
qed

lemma assigned_in_final:
  assumes mem: "(col, f) \<in> set fm" and u: "unique_targets fm cm"
    and step: "\<And>fv lg. fst (regular_field td cols row dfs (fv, lg) (col, f)) = dict_set fv f v"
  shows "dict_get (field_assignment_set td cols row fm cm dfs) f = Some v"
proof -
  from mem obtain b a where fm: "fm = b @ (col, f) # a" by (auto dest: split_list)
  have "distinct (map snd fm)" using u by (rule unique_targets_distinct)
  then have fa: "f \<notin> snd ` set a" using fm by auto
  obtain fv0 lg0 where s0: "foldl (regular_field td cols row dfs) ([], []) b = (fv0, lg0)"
    by (cases "foldl (regular_field td cols row dfs) ([], []) b")
  have "dict_get (fst (regular_field td cols row dfs (fv0, lg0) (col, f))) f = Some v"
    by (simp add: step dict_get_dict_set)
  then have "dict_get (fst (foldl (regular_field td cols row dfs) ([], []) fm)) f = Some v"
    using fm s0 by (simp add: foldl_regular_field_other [OF fa])
  moreover have "f \<in> snd ` set fm" using mem by force
  ultimately show ?thesis
    by (simp add: field_assignment_set_def resolve_fields_def checkbox_pass_other [OF u])
qed

lemma assigned_stays:
  assumes mem: "(col, f) \<in> set fm"
    and step: "\<And>fv lg. fst (regular_field td cols row dfs (fv, lg) (col, f)) = dict_set fv f v"
  shows "dict_get (field_assignment_set td cols row fm cm dfs) f \<noteq> None"
proof -
  from mem obtain b a where fm: "fm = b @ (col, f) # a" by (auto dest: split_list)
  obtain fv0 lg0 where s0: "foldl (regular_field td cols row dfs) ([], []) b = (fv0, lg0)"
    by (cases "foldl (regular_field td cols row dfs) ([], []) b")
  have "dict_get (fst (regular_field td cols row dfs (fv0, lg0) (col, f))) f \<noteq> None"
    by (simp add: step dict_get_dict_set)
  then have "dict_get (fst (foldl (regular_field td cols row dfs) ([], []) fm)) f \<noteq> None"
    using fm s0 foldl_regular_field_keeps by simp
  then show ?thesis
    by (simp add: field_assignment_set_def resolve_fields_def foldl_checkbox_field_fields
        foldl_dict_update_keeps)
qed

lemma regular_warning_in_log:
  assumes mem: "(col, f) \<in> set fm"
    and step: "\<And>fv lg. snd (regular_field td cols row dfs (fv, lg) (col, f)) = lg @ [w]"
  shows "w \<in> set (resolution_log td cols row fm cm dfs)"
proof -
  from mem obtain b a where fm: "fm = b @ (col, f) # a" by (auto dest: split_list)
  obtain fv0 lg0 where s0: "foldl (regular_field td cols row dfs) ([], []) b = (fv0, lg0)"
    by (cases "foldl (regular_field td cols row dfs) ([], []) b")
  have "w \<in> set (snd (regular_field td cols row dfs (fv0, lg0) (col, f)))"
    by (simp add: step)
  then have "w \<in> set (snd (foldl (regular_field td cols row dfs) ([], []) fm))"
    using fm s0 by (simp add: foldl_regular_field_log_mono)
  then show ?thesis
    by (simp add: resolution_log_def resolve_fields_def foldl_checkbox_field_log_mono)
qed

lemma checkbox_warning_in_log:
  assumes mem: "(col, options) \<in> set cm"
    and step: "\<And>fv lg. snd (checkbox_field cols row (fv, lg) (col, options)) = lg @ [w]"
  shows "w \<in> set (resolution_log td cols row fm cm dfs)"
proof -
  from mem obtain b a where cm: "cm = b @ (col, options) # a" by (auto dest: split_list)
  obtain fv0 lg0 where s0:
    "foldl (checkbox_field cols row) (foldl (regular_field td cols row dfs) ([], []) fm) b = (fv0, lg0)"
    by (cases "foldl (checkbox_field cols row) (foldl (regular_field td cols row dfs) ([], []) fm) b")
  have "w \<in> set (snd (checkbox_field cols row (fv0, lg0) (col, options)))"
    by (simp add: step)
  then show ?thesis
    using cm s0 by (simp add: resolution_log_def resolve_fields_def foldl_checkbox_field_log_mono)
qed

lemma absent_in_final:
  assumes mem: "(col, f) \<in> set fm" and u: "unique_targets fm cm" and absent: "col \<notin> set cols"
  shows "dict_get (field_assignment_set td cols row fm cm dfs) f = None"
proof -
  have d: "distinct (map snd fm)" using u by (rule unique_targets_distinct)
  have "c = col" if "(c, f) \<in> set fm" for c
  proof -
    have "inj_on snd (set fm)" using d by (simp add: distinct_map)
    from inj_onD [OF this _ that mem] show ?thesis by simp
  qed
  then have "\<forall>c. (c, f) \<in> set fm \<longrightarrow> c \<notin> set cols" using absent by blast
  from foldl_regular_field_absent [OF this, of td row dfs "([], [])"]
  have "dict_get (fst (foldl (regular_field td cols row dfs) ([], []) fm)) f = None"
    by (simp add: dict_get_def)
  moreover have "f \<in> snd ` set fm" using mem by force
  ultimately show ?thesis
    by (simp add: field_assignment_set_def resolve_fields_def checkbox_pass_other [OF u])
qed

lemma unmatched_group_in_final:
  assumes mem: "(col, options) \<in> set cm" and u: "unique_targets fm cm"
    and none: "fields_to_set cols row (col, options) = []"
    and k: "k \<in> set (group_field_ids options)"
  shows "dict_get (field_assignment_set td cols row fm cm dfs) k = None"
proof -
  from mem obtain b a where cm: "cm = b @ (col, options) # a" by (auto dest: split_list)
  let ?g = "\<lambda>(c, options). remdups (group_field_ids options)"
  have dis: "distinct (map snd fm @ concat (map ?g b) @ remdups (group_field_ids options) @ concat (map ?g a))"
    using u cm by (simp add: unique_targets_def)
  have kfm: "k \<notin> snd ` set fm" using dis k by auto
  have kb: "k \<notin> set (group_field_ids o')" if "(c', o') \<in> set b" for c' o'
    using dis k that by fastforce
  have ka: "k \<notin> set (group_field_ids o')" if "(c', o') \<in> set a" for c' o'
    using dis k that by fastforce
  have "k \<notin> set (dict_keys (fields_to_set cols row x))" if xin: "x \<in> set cm" for x
  proof -
    obtain c' o' where x: "x = (c', o')" by (cases x)
    consider "x \<in> set b" | "x = (col, options)" | "x \<in> set a" using xin cm by auto
    then show ?thesis
    proof cases
      case 1
      then show ?thesis using kb x fields_to_set_group [of cols row c' o'] by auto
    next
      case 2
      then show ?thesis using none by (simp add: dict_keys_def)
    next
      case 3
      then show ?thesis using ka x fields_to_set_group [of cols row c' o'] by auto
    qed
  qed
  then have "\<forall>x \<in> set (map (fields_to_set cols row) cm). k \<notin> set (dict_keys x)" by auto
  then have "dict_get (field_assignment_set td cols row fm cm dfs) k =
     dict_get (fst (foldl (regular_field td cols row dfs) ([], []) fm)) k"
    by (simp add: field_assignment_set_def resolve_fields_def foldl_checkbox_field_fields
        foldl_dict_update_other)
  also have "\<dots> = None"
    using foldl_regular_field_other [OF kfm, of td cols row dfs "([], [])"]
    by (simp add: dict_get_def)
  finally show ?thesis .
qed

section \<open>The examples, evaluated\<close>

lemma example_unique: "unique_targets FIELD_MAPPING CHECKBOX_MAPPINGS"
  by code_simp

lemma example_succeed:
  "library_calls_succeed example_env example_to_datetime example_columns FIELD_MAPPING
     CHECKBOX_MAPPINGS DATE_FIELDS 0 example_row"
  by code_simp

lemma example_succeed2:
  "library_calls_succeed example_env example_to_datetime example_columns FIELD_MAPPING
     CHECKBOX_MAPPINGS DATE_FIELDS 1 example_row2"
  by code_simp

lemma example_run:
  "fill_pdf_with_data example_env example_to_datetime example_frame FIELD_MAPPING
     CHECKBOX_MAPPINGS DATE_FIELDS =
   (\<lparr>log =
     [FieldNotFound ''Identifying number'', FieldNotFound ''Year'',
      FieldNotFound ''Make'', FieldNotFound ''Model'',
      FieldNotFound ''VIN'', CheckboxFieldNotFound ''new clean vehicle?'',
      PdfSavedAs ''jane.pdf'', FieldNotFound ''Identifying number'',
      FieldNotFound ''Year'', FieldNotFound ''Make'',
      FieldNotFound ''Model'', FieldNotFound ''VIN'',
      DateParsingFailed (CStr ''next week''),
      UnrecognizedCheckboxValue (CStr ''maybe'') ''more than $25,000?'',
      CheckboxFieldNotFound ''new clean vehicle?'',
      PdfSavedAs ''john.pdf''],
     calls =
       [(0, [(''f1_01[0]'', ''Jane Doe''), (''f1_07[0]'', ''04/15/2023''),
             (''c1_1[0]'', ''/1''), (''c1_1[1]'', [])]),
        (0, [(''f1_01[0]'', []), (''f1_07[0]'', ''next week'')])],
     files =
       [(''jane.pdf'',
         \<lparr>pages =
            [[(''f1_01[0]'', ''Jane Doe''), (''f1_07[0]'', ''04/15/2023''),
              (''c1_1[0]'', ''/1''), (''c1_1[1]'', [])],
             [(''f1_01[0]'', []), (''c1_1[0]'', [])]],
            root_acroform =
              Some [(''/NeedAppearances'', BooleanObject True)]\<rparr>),
        (''john.pdf'',
         \<lparr>pages =
            [[(''f1_01[0]'', []), (''f1_07[0]'', ''next week''),
              (''c1_1[0]'', []), (''c1_1[1]'', [])],
             [(''f1_01[0]'', []), (''c1_1[0]'', [])]],
            root_acroform =
              Some [(''/NeedAppearances'', BooleanObject True)]\<rparr>)]\<rparr>,
    None)"
  by code_simp

lemma example_run2:
  "fill_pdf_with_data example_env2 example_to_datetime example_frame FIELD_MAPPING
     CHECKBOX_MAPPINGS DATE_FIELDS =
   (\<lparr>log =
     [FieldNotFound ''Identifying number'', FieldNotFound ''Year'',
      FieldNotFound ''Make'', FieldNotFound ''Model'',
      FieldNotFound ''VIN'', CheckboxFieldNotFound ''new clean vehicle?'',
      PdfSavedAs ''jane.pdf'', FieldNotFound ''Identifying number'',
      FieldNotFound ''Year'', FieldNotFound ''Make'',
      FieldNotFound ''Model'', FieldNotFound ''VIN'',
      DateParsingFailed (CStr ''next week''),
      UnrecognizedCheckboxValue (CStr ''maybe'') ''more than $25,000?'',
      CheckboxFieldNotFound ''new clean vehicle?'',
      ErrorFillingPdf (LibraryError ''disk full'')],
     calls =
       [(0, [(''f1_01[0]'', ''Jane Doe''), (''f1_07[0]'', ''04/15/2023''),
             (''c1_1[0]'', ''/1''), (''c1_1[1]'', [])]),
        (0, [(''f1_01[0]'', []), (''f1_07[0]'', ''next week'')])],
     files =
       [(''jane.pdf'',
         \<lparr>pages =
            [[(''f1_01[0]'', ''Jane Doe''), (''f1_07[0]'', ''04/15/2023''),
              (''c1_1[0]'', ''/1''), (''c1_1[1]'', [])],
             [(''f1_01[0]'', []), (''c1_1[0]'', [])]],
            root_acroform =
              Some [(''/NeedAppearances'', BooleanObject True)]\<rparr>)]\<rparr>,
    Some (LibraryError ''disk full''))"
  by code_simp

lemma example_run3:
  "map fst (files (fst (fill_pdf_with_data example_env example_to_datetime example_frame3
     FIELD_MAPPING CHECKBOX_MAPPINGS DATE_FIELDS))) =
     [''output_1.pdf'', ''output_2.pdf'', ''output_3.pdf''] \<and>
   snd (fill_pdf_with_data example_env example_to_datetime example_frame3
     FIELD_MAPPING CHECKBOX_MAPPINGS DATE_FIELDS) = None"
  by code_simp

lemma page_local_example_update: "page_local example_update"
  by (auto simp: page_local_def example_update_def split: if_splits)

section \<open>The claims\<close>

text \<open>
  C3. A column of the field mapping that the table does not have: its entry leaves the
  assignment set as it was and logs one warning. With the targets of the tables
  unique, the target field is then absent from the assignment set of the row. The row
  is not aborted: when the calls into the library succeed, it ends without exception
  and writes its document.
\<close>

theorem absent_column_omitted:
  assumes "(col, f) \<in> set fm" and "col \<notin> set cols"
  shows "regular_field td cols row dfs (fv, lg) (col, f) = (fv, lg @ [FieldNotFound col]) \<and>
         level (FieldNotFound col) = WARNING \<and>
         FieldNotFound col \<in> set (resolution_log td cols row fm cm dfs) \<and>
         (unique_targets fm cm \<longrightarrow>
            dict_get (field_assignment_set td cols row fm cm dfs) f = None) \<and>
         (library_calls_succeed e td cols fm cm dfs index row \<longrightarrow>
            snd (fill_row e td cols fm cm dfs index row) = None \<and>
            map fst (files (fst (fill_row e td cols fm cm dfs index row))) =
              [output_filename cols row index])"
proof -
  have step: "regular_field td cols row dfs (fv, lg) (col, f) = (fv, lg @ [FieldNotFound col])"
    for fv lg
    using assms(2) by (simp add: regular_field_def)
  have logged: "FieldNotFound col \<in> set (resolution_log td cols row fm cm dfs)"
    by (rule regular_warning_in_log [OF assms(1)]) (simp add: step)
  have final: "unique_targets fm cm \<longrightarrow>
      dict_get (field_assignment_set td cols row fm cm dfs) f = None"
    using absent_in_final [OF assms(1) _ assms(2)] by blast
  have produced: "library_calls_succeed e td cols fm cm dfs index row \<longrightarrow>
      snd (fill_row e td cols fm cm dfs index row) = None \<and>
      map fst (files (fst (fill_row e td cols fm cm dfs index row))) =
        [output_filename cols row index]"
    by (simp add: fill_row_produced fill_row_file)
  show ?thesis
    using step logged final produced by simp
qed

theorem absent_column_omitted_witness:
  "(''VIN'', ''f1_06[0]'') \<in> set FIELD_MAPPING \<and> ''VIN'' \<notin> set example_columns \<and>
   unique_targets FIELD_MAPPING CHECKBOX_MAPPINGS \<and>
   library_calls_succeed example_env example_to_datetime example_columns FIELD_MAPPING
     CHECKBOX_MAPPINGS DATE_FIELDS 0 example_row \<and>
   regular_field example_to_datetime example_columns example_row DATE_FIELDS ([], [])
     (''VIN'', ''f1_06[0]'') = ([], [] @ [FieldNotFound ''VIN'']) \<and>
   FieldNotFound ''VIN'' \<in> set (resolution_log example_to_datetime example_columns example_row
     FIELD_MAPPING CHECKBOX_MAPPINGS DATE_FIELDS) \<and>
   dict_get (field_assignment_set example_to_datetime example_columns example_row
     FIELD_MAPPING CHECKBOX_MAPPINGS DATE_FIELDS) ''f1_06[0]'' = None \<and>
   snd (fill_row example_env example_to_datetime example_columns FIELD_MAPPING
     CHECKBOX_MAPPINGS DATE_FIELDS 0 example_row) = None \<and>
   map fst (files (fst (fill_row example_env example_to_datetime example_columns FIELD_MAPPING
     CHECKBOX_MAPPINGS DATE_FIELDS 0 example_row))) =
     [output_filename example_columns example_row 0]"
proof -
  have h1: "(''VIN'', ''f1_06[0]'') \<in> set FIELD_MAPPING" by (simp add: FIELD_MAPPING_def)
  have h2: "''VIN'' \<notin> set example_columns" by (simp add: example_columns_def)
  note t = absent_column_omitted [OF h1 h2, of example_to_datetime example_row DATE_FIELDS
        "[]" "[]" CHECKBOX_MAPPINGS example_env 0]
  show ?thesis
    using t h1 h2 example_unique example_succeed by blast
qed

text \<open>
  C2. The source renders a parsed date with \<open>strftime('%m/%d/%Y')\<close>, under the comment
  \<open>Format the date to MM/DD/YYYY\<close>: the month and the day on two digits and the year
  in its decimal digits, not padded. For a year of four digits that is the form
  \<open>MM/DD/YYYY\<close> (lemma \<open>strftime_mdY_form\<close>). For the 2nd of January 999, in the date
  column of the source's tables, it is not: the field is assigned \<open>01/02/999\<close>, nine
  characters with a year of three digits.
\<close>

theorem date_rendered_year_999:
  "example_to_datetime (row_at (columns example_frame_999) (rows example_frame_999 ! 0)
     ''Date in Service'') =
     Some \<lparr>year = 999, month = 1, day = 2, hour = 0, minute = 0, second = 0\<rparr> \<and>
   regular_field example_to_datetime (columns example_frame_999) (rows example_frame_999 ! 0)
     DATE_FIELDS ([], []) (''Date in Service'', ''f1_07[0]'') =
     ([(''f1_07[0]'', ''01/02/999'')], []) \<and>
   field_assignment_set example_to_datetime (columns example_frame_999)
     (rows example_frame_999 ! 0) FIELD_MAPPING CHECKBOX_MAPPINGS DATE_FIELDS =
     [(''f1_07[0]'', ''01/02/999'')] \<and>
   length ''01/02/999'' = 9"
  by code_simp

text \<open>
  C4. A column of the field mapping that the table has, with an empty cell (\<open>None\<close>,
  \<open>nan\<close> or \<open>NaT\<close>): its entry assigns the empty string to the mapped field. The
  field is then a key of the assignment set of the row, and with the targets of the
  tables unique its value there is the empty string.
\<close>

theorem empty_cell_assigned:
  assumes "(col, f) \<in> set fm" and "col \<in> set cols" and "isnull (row_at cols row col)"
  shows "regular_field td cols row dfs (fv, lg) (col, f) = (dict_set fv f [], lg) \<and>
         dict_get (dict_set fv f []) f = Some [] \<and>
         dict_get (field_assignment_set td cols row fm cm dfs) f \<noteq> None \<and>
         (unique_targets fm cm \<longrightarrow>
            dict_get (field_assignment_set td cols row fm cm dfs) f = Some [])"
proof -
  have step: "regular_field td cols row dfs (fv, lg) (col, f) = (dict_set fv f [], lg)"
    for fv lg
    using assms(2,3) by (simp add: regular_field_def Let_def)
  have present: "dict_get (field_assignment_set td cols row fm cm dfs) f \<noteq> None"
    by (rule assigned_stays [OF assms(1), of td cols row dfs "[]"]) (simp add: step)
  have final: "unique_targets fm cm \<longrightarrow>
      dict_get (field_assignment_set td cols row fm cm dfs) f = Some []"
    using assigned_in_final [OF assms(1), of cm td cols row dfs "[]"]
    by (simp add: step)
  show ?thesis
    using step present final by (simp add: dict_get_dict_set)
qed

theorem empty_cell_assigned_witness:
  "(''Name(s)'', ''f1_01[0]'') \<in> set FIELD_MAPPING \<and> ''Name(s)'' \<in> set example_columns \<and>
   isnull (row_at example_columns example_row2 ''Name(s)'') \<and>
   unique_targets FIELD_MAPPING CHECKBOX_MAPPINGS \<and>
   regular_field example_to_datetime example_columns example_row2 DATE_FIELDS ([], [])
     (''Name(s)'', ''f1_01[0]'') = (dict_set [] ''f1_01[0]'' [], []) \<and>
   dict_get (field_assignment_set example_to_datetime example_columns example_row2 FIELD_MAPPING
     CHECKBOX_MAPPINGS DATE_FIELDS) ''f1_01[0]'' = Some []"
proof -
  have h1: "(''Name(s)'', ''f1_01[0]'') \<in> set FIELD_MAPPING" by (simp add: FIELD_MAPPING_def)
  have h2: "''Name(s)'' \<in> set example_columns" by (simp add: example_columns_def)
  have h3: "isnull (row_at example_columns example_row2 ''Name(s)'')" by code_simp
  note t = empty_cell_assigned [where td = example_to_datetime and dfs = DATE_FIELDS
      and fv = "[]" and lg = "[]" and cm = CHECKBOX_MAPPINGS, OF h1 h2 h3]
  show ?thesis
    using t h1 h2 h3 example_unique by blast
qed

text \<open>
  C6. A column of the date fields that the table has, with a cell that is not empty
  and that \<open>pd.to_datetime\<close> does not read: its entry assigns to the mapped field the
  \<open>str\<close> of the cell and logs one warning. With the targets of the tables unique this
  is the value of the field in the assignment set of the row. The row is not aborted:
  when the calls into the library succeed, it ends without exception and writes its
  document.
\<close>

theorem unparseable_date_kept:
  assumes "(col, f) \<in> set fm" and "col \<in> set cols" and "col \<in> set dfs"
    and "\<not> isnull (row_at cols row col)"
    and "td (row_at cols row col) = None"
  shows "regular_field td cols row dfs (fv, lg) (col, f) =
           (dict_set fv f (str (row_at cols row col)),
            lg @ [DateParsingFailed (row_at cols row col)]) \<and>
         level (DateParsingFailed (row_at cols row col)) = WARNING \<and>
         DateParsingFailed (row_at cols row col) \<in> set (resolution_log td cols row fm cm dfs) \<and>
         (unique_targets fm cm \<longrightarrow>
            dict_get (field_assignment_set td cols row fm cm dfs) f =
              Some (str (row_at cols row col))) \<and>
         (library_calls_succeed e td cols fm cm dfs index row \<longrightarrow>
            snd (fill_row e td cols fm cm dfs index row) = None \<and>
            map fst (files (fst (fill_row e td cols fm cm dfs index row))) =
              [output_filename cols row index])"
proof -
  let ?v = "row_at cols row col"
  have step: "regular_field td cols row dfs (fv, lg) (col, f) =
      (dict_set fv f (str ?v), lg @ [DateParsingFailed ?v])" for fv lg
    using assms(2-5) by (simp add: regular_field_def Let_def)
  have logged: "DateParsingFailed ?v \<in> set (resolution_log td cols row fm cm dfs)"
    by (rule regular_warning_in_log [OF assms(1)]) (simp add: step)
  have final: "unique_targets fm cm \<longrightarrow>
      dict_get (field_assignment_set td cols row fm cm dfs) f = Some (str ?v)"
    using assigned_in_final [OF assms(1), of cm td cols row dfs "str ?v"]
    by (simp add: step)
  have produced: "library_calls_succeed e td cols fm cm dfs index row \<longrightarrow>
      snd (fill_row e td cols fm cm dfs index row) = None \<and>
      map fst (files (fst (fill_row e td cols fm cm dfs index row))) =
        [output_filename cols row index]"
    by (simp add: fill_row_produced fill_row_file)
  show ?thesis
    using step logged final produced by simp
qed

theorem unparseable_date_kept_witness:
  "(''Date in Service'', ''f1_07[0]'') \<in> set FIELD_MAPPING \<and>
   ''Date in Service'' \<in> set example_columns \<and> ''Date in Service'' \<in> set DATE_FIELDS \<and>
   \<not> isnull (row_at example_columns example_row2 ''Date in Service'') \<and>
   example_to_datetime (row_at example_columns example_row2 ''Date in Service'') = None \<and>
   unique_targets FIELD_MAPPING CHECKBOX_MAPPINGS \<and>
   library_calls_succeed example_env example_to_datetime example_columns FIELD_MAPPING
     CHECKBOX_MAPPINGS DATE_FIELDS 1 example_row2 \<and>
   row_at example_columns example_row2 ''Date in Service'' = CStr ''next week'' \<and>
   DateParsingFailed (row_at example_columns example_row2 ''Date in Service'')
     \<in> set (resolution_log example_to_datetime example_columns example_row2 FIELD_MAPPING
         CHECKBOX_MAPPINGS DATE_FIELDS) \<and>
   dict_get (field_assignment_set example_to_datetime example_columns example_row2 FIELD_MAPPING
     CHECKBOX_MAPPINGS DATE_FIELDS) ''f1_07[0]'' =
     Some (str (row_at example_columns example_row2 ''Date in Service'')) \<and>
   snd (fill_row example_env example_to_datetime example_columns FIELD_MAPPING
     CHECKBOX_MAPPINGS DATE_FIELDS 1 example_row2) = None"
proof -
  have h1: "(''Date in Service'', ''f1_07[0]'') \<in> set FIELD_MAPPING"
    by (simp add: FIELD_MAPPING_def)
  have h2: "''Date in Service'' \<in> set example_columns" by (simp add: example_columns_def)
  have h3: "''Date in Service'' \<in> set DATE_FIELDS" by (simp add: DATE_FIELDS_def)
  have h6: "row_at example_columns example_row2 ''Date in Service'' = CStr ''next week''"
    by code_simp
  have h4: "\<not> isnull (row_at example_columns example_row2 ''Date in Service'')"
    by (simp add: h6)
  have h5: "example_to_datetime (row_at example_columns example_row2 ''Date in Service'') = None"
    unfolding h6 by code_simp
  note t = unparseable_date_kept [where td = example_to_datetime and fv = "[]" and lg = "[]"
      and cm = CHECKBOX_MAPPINGS and e = example_env and index = 1, OF h1 h2 h3 h4 h5]
  show ?thesis
    using t h1 h2 h3 h4 h5 h6 example_unique example_succeed2 by blast
qed

text \<open>
  C5. A checkbox column that the table has, with a cell whose normalized value (the
  \<open>str\<close> of the cell, stripped and in lower case) is no option of the column: its
  entry leaves the assignment set as it was and logs one warning. With the targets of
  the tables unique, no field of that checkbox group is a key of the assignment set of
  the row. The row is not aborted: when the calls into the library succeed, it ends
  without exception and writes its document.
\<close>

theorem unknown_checkbox_value_ignored:
  assumes "(col, options) \<in> set cm" and "col \<in> set cols"
    and "dict_get options (lower (strip (str (row_at cols row col)))) = None"
  shows "checkbox_field cols row (fv, lg) (col, options) =
           (fv, lg @ [UnrecognizedCheckboxValue (row_at cols row col) col]) \<and>
         level (UnrecognizedCheckboxValue (row_at cols row col) col) = WARNING \<and>
         UnrecognizedCheckboxValue (row_at cols row col) col
           \<in> set (resolution_log td cols row fm cm dfs) \<and>
         (unique_targets fm cm \<longrightarrow>
            (\<forall>k \<in> set (group_field_ids options).
               dict_get (field_assignment_set td cols row fm cm dfs) k = None)) \<and>
         (library_calls_succeed e td cols fm cm dfs index row \<longrightarrow>
            snd (fill_row e td cols fm cm dfs index row) = None \<and>
            map fst (files (fst (fill_row e td cols fm cm dfs index row))) =
              [output_filename cols row index])"
proof -
  let ?w = "UnrecognizedCheckboxValue (row_at cols row col) col"
  have step: "checkbox_field cols row (fv, lg) (col, options) = (fv, lg @ [?w])" for fv lg
    using assms(2,3) by (simp add: checkbox_field_def Let_def)
  have logged: "?w \<in> set (resolution_log td cols row fm cm dfs)"
    by (rule checkbox_warning_in_log [OF assms(1)]) (simp add: step)
  have none: "fields_to_set cols row (col, options) = []"
    using assms(2,3) by (simp add: fields_to_set_def)
  have final: "unique_targets fm cm \<longrightarrow>
      (\<forall>k \<in> set (group_field_ids options).
         dict_get (field_assignment_set td cols row fm cm dfs) k = None)"
    using unmatched_group_in_final [OF assms(1) _ none] by blast
  have produced: "library_calls_succeed e td cols fm cm dfs index row \<longrightarrow>
      snd (fill_row e td cols fm cm dfs index row) = None \<and>
      map fst (files (fst (fill_row e td cols fm cm dfs index row))) =
        [output_filename cols row index]"
    by (simp add: fill_row_produced fill_row_file)
  show ?thesis
    using step logged final produced by simp
qed

theorem unknown_checkbox_value_ignored_witness:
  "(''more than $25,000?'', snd (CHECKBOX_MAPPINGS ! 0)) \<in> set CHECKBOX_MAPPINGS \<and>
   ''more than $25,000?'' \<in> set example_columns \<and>
   row_at example_columns example_row2 ''more than $25,000?'' = CStr ''maybe'' \<and>
   dict_get (snd (CHECKBOX_MAPPINGS ! 0))
     (lower (strip (str (row_at example_columns example_row2 ''more than $25,000?'')))) = None \<and>
   unique_targets FIELD_MAPPING CHECKBOX_MAPPINGS \<and>
   library_calls_succeed example_env example_to_datetime example_columns FIELD_MAPPING
     CHECKBOX_MAPPINGS DATE_FIELDS 1 example_row2 \<and>
   ''c1_1[0]'' \<in> set (group_field_ids (snd (CHECKBOX_MAPPINGS ! 0))) \<and>
   ''c1_1[1]'' \<in> set (group_field_ids (snd (CHECKBOX_MAPPINGS ! 0))) \<and>
   UnrecognizedCheckboxValue (row_at example_columns example_row2 ''more than $25,000?'')
       ''more than $25,000?''
     \<in> set (resolution_log example_to_datetime example_columns example_row2 FIELD_MAPPING
         CHECKBOX_MAPPINGS DATE_FIELDS) \<and>
   dict_get (field_assignment_set example_to_datetime example_columns example_row2 FIELD_MAPPING
     CHECKBOX_MAPPINGS DATE_FIELDS) ''c1_1[0]'' = None \<and>
   dict_get (field_assignment_set example_to_datetime example_columns example_row2 FIELD_MAPPING
     CHECKBOX_MAPPINGS DATE_FIELDS) ''c1_1[1]'' = None \<and>
   snd (fill_row example_env example_to_datetime example_columns FIELD_MAPPING
     CHECKBOX_MAPPINGS DATE_FIELDS 1 example_row2) = None"
proof -
  have h1: "(''more than $25,000?'', snd (CHECKBOX_MAPPINGS ! 0)) \<in> set CHECKBOX_MAPPINGS"
    by code_simp
  have h2: "''more than $25,000?'' \<in> set example_columns" by (simp add: example_columns_def)
  have h4: "row_at example_columns example_row2 ''more than $25,000?'' = CStr ''maybe''"
    by code_simp
  have h3: "dict_get (snd (CHECKBOX_MAPPINGS ! 0))
     (lower (strip (str (row_at example_columns example_row2 ''more than $25,000?'')))) = None"
    by code_simp
  have k0: "''c1_1[0]'' \<in> set (group_field_ids (snd (CHECKBOX_MAPPINGS ! 0)))" by code_simp
  have k1: "''c1_1[1]'' \<in> set (group_field_ids (snd (CHECKBOX_MAPPINGS ! 0)))" by code_simp
  note t = unknown_checkbox_value_ignored [where td = example_to_datetime and fv = "[]"
      and lg = "[]" and fm = FIELD_MAPPING and dfs = DATE_FIELDS and e = example_env
      and index = 1, OF h1 h2 h3]
  show ?thesis
    using t h1 h2 h3 h4 k0 k1 example_unique example_succeed2 by blast
qed

text \<open>
  C1. A checkbox column that the table has, with a cell whose normalized value (the
  \<open>str\<close> of the cell, stripped and in lower case) is an option of the column with a
  \<open>fields\<close> dictionary: its entry merges exactly the pairs of that dictionary into the
  assignment set, a pair replacing an earlier assignment of the same field and every
  other field as it was. The assignment set of the row is the one built up to this
  entry, updated with these pairs and then with the pairs that the later checkbox
  entries merge, in the order of the table; so each of these pairs is in it unless a
  later entry assigns the same field.
\<close>

theorem checkbox_option_merged:
  assumes "cm = before @ (col, options) # after" and "col \<in> set cols"
    and "dict_get options (lower (strip (str (row_at cols row col)))) = Some info"
    and "dict_get info ''fields'' = Some fs"
    and "distinct (dict_keys fs)"
  shows "checkbox_field cols row (fv, lg) (col, options) = (dict_update fv fs, lg) \<and>
         (\<forall>k. dict_get (dict_update fv fs) k =
                (case dict_get fs k of Some v \<Rightarrow> Some v | None \<Rightarrow> dict_get fv k)) \<and>
         field_assignment_set td cols row fm cm dfs =
           foldl dict_update
             (dict_update (field_assignment_set td cols row fm before dfs) fs)
             (map (fields_to_set cols row) after) \<and>
         (\<forall>k v. (k, v) \<in> set fs \<and>
                 (\<forall>later \<in> set after. k \<notin> set (dict_keys (fields_to_set cols row later)))
                 \<longrightarrow> dict_get (field_assignment_set td cols row fm cm dfs) k = Some v)"
proof -
  have key: "''fields'' \<in> set (dict_keys info)" and ne: "info \<noteq> []"
    using assms(4) by (auto simp: fields_key_iff dict_get_def)
  have step: "checkbox_field cols row (fv, lg) (col, options) = (dict_update fv fs, lg)"
    for fv lg
    using assms(2,3,4) key ne by (simp add: checkbox_field_def Let_def)
  have merged: "fields_to_set cols row (col, options) = fs"
    using assms(2,3,4) by (simp add: fields_to_set_def)
  have exact: "dict_get (dict_update fv fs) k =
      (case dict_get fs k of Some v \<Rightarrow> Some v | None \<Rightarrow> dict_get fv k)" for k
    using map_of_dict_update [of fs fv] assms(5)
    by (simp add: dict_get_def dict_keys_def map_add_def split: option.splits)
  have whole: "field_assignment_set td cols row fm cm dfs =
      foldl dict_update (dict_update (field_assignment_set td cols row fm before dfs) fs)
        (map (fields_to_set cols row) after)"
  proof -
    have pass: "field_assignment_set td cols row fm c dfs =
        foldl dict_update (fst (foldl (regular_field td cols row dfs) ([], []) fm))
          (map (fields_to_set cols row) c)" for c
      by (simp add: field_assignment_set_def resolve_fields_def foldl_checkbox_field_fields)
    show ?thesis
      by (simp add: pass assms(1) merged)
  qed
  have last: "dict_get (field_assignment_set td cols row fm cm dfs) k = Some v"
    if kv: "(k, v) \<in> set fs"
      and later: "\<forall>later \<in> set after. k \<notin> set (dict_keys (fields_to_set cols row later))"
    for k v
  proof -
    have "\<forall>x \<in> set (map (fields_to_set cols row) after). k \<notin> set (dict_keys x)"
      using later by simp
    then have "dict_get (field_assignment_set td cols row fm cm dfs) k =
        dict_get (dict_update (field_assignment_set td cols row fm before dfs) fs) k"
      unfolding whole by (rule foldl_dict_update_other)
    also have "\<dots> = Some v"
      using assms(5) kv by (rule dict_get_dict_update_in)
    finally show ?thesis .
  qed
  show ?thesis
    using step exact whole last by blast
qed

theorem checkbox_option_merged_witness:
  "CHECKBOX_MAPPINGS =
     [] @ (''more than $25,000?'', snd (CHECKBOX_MAPPINGS ! 0)) # [CHECKBOX_MAPPINGS ! 1] \<and>
   ''more than $25,000?'' \<in> set example_columns \<and>
   row_at example_columns example_row ''more than $25,000?'' = CStr ''Yes'' \<and>
   dict_get (snd (CHECKBOX_MAPPINGS ! 0))
     (lower (strip (str (row_at example_columns example_row ''more than $25,000?'')))) =
     Some [(''fields'', [(''c1_1[0]'', ''/1''), (''c1_1[1]'', [])])] \<and>
   dict_get [(''fields'', [(''c1_1[0]'', ''/1''), (''c1_1[1]'', [])])] ''fields'' =
     Some [(''c1_1[0]'', ''/1''), (''c1_1[1]'', [])] \<and>
   distinct (dict_keys [(''c1_1[0]'', ''/1''), (''c1_1[1]'', [])]) \<and>
   checkbox_field example_columns example_row ([(''c1_1[1]'', ''/2'')], [])
     (''more than $25,000?'', snd (CHECKBOX_MAPPINGS ! 0)) =
     (dict_update [(''c1_1[1]'', ''/2'')] [(''c1_1[0]'', ''/1''), (''c1_1[1]'', [])], []) \<and>
   dict_update [(''c1_1[1]'', ''/2'')] [(''c1_1[0]'', ''/1''), (''c1_1[1]'', [])] =
     [(''c1_1[1]'', []), (''c1_1[0]'', ''/1'')] \<and>
   dict_get (field_assignment_set example_to_datetime example_columns example_row FIELD_MAPPING
     CHECKBOX_MAPPINGS DATE_FIELDS) ''c1_1[0]'' = Some ''/1'' \<and>
   dict_get (field_assignment_set example_to_datetime example_columns example_row FIELD_MAPPING
     CHECKBOX_MAPPINGS DATE_FIELDS) ''c1_1[1]'' = Some []"
proof -
  let ?fields = "[(''c1_1[0]'', ''/1''), (''c1_1[1]'', [])] :: field_values"
  have h1: "CHECKBOX_MAPPINGS =
     [] @ (''more than $25,000?'', snd (CHECKBOX_MAPPINGS ! 0)) # [CHECKBOX_MAPPINGS ! 1]"
    by code_simp
  have h2: "''more than $25,000?'' \<in> set example_columns" by (simp add: example_columns_def)
  have h6: "row_at example_columns example_row ''more than $25,000?'' = CStr ''Yes''"
    by code_simp
  have h3: "dict_get (snd (CHECKBOX_MAPPINGS ! 0))
     (lower (strip (str (row_at example_columns example_row ''more than $25,000?'')))) =
     Some [(''fields'', ?fields)]"
    by code_simp
  have h4: "dict_get [(''fields'', ?fields)] ''fields'' = Some ?fields"
    by (simp add: dict_get_def)
  have h5: "distinct (dict_keys ?fields)" by (simp add: dict_keys_def)
  have m0: "(''c1_1[0]'', ''/1'') \<in> set ?fields" and m1: "(''c1_1[1]'', []) \<in> set ?fields"
    by simp_all
  have l0: "\<forall>later \<in> set [CHECKBOX_MAPPINGS ! 1].
      ''c1_1[0]'' \<notin> set (dict_keys (fields_to_set example_columns example_row later))"
    by code_simp
  have l1: "\<forall>later \<in> set [CHECKBOX_MAPPINGS ! 1].
      ''c1_1[1]'' \<notin> set (dict_keys (fields_to_set example_columns example_row later))"
    by code_simp
  have ev: "dict_update [(''c1_1[1]'', ''/2'')] ?fields = [(''c1_1[1]'', []), (''c1_1[0]'', ''/1'')]"
    by simp
  note t = checkbox_option_merged [where td = example_to_datetime and fm = FIELD_MAPPING
      and dfs = DATE_FIELDS and fv = "[(''c1_1[1]'', ''/2'')]" and lg = "[]",
      OF h1 h2 h3 h4 h5]
  show ?thesis
    using t h1 h2 h3 h4 h5 h6 m0 m1 l0 l1 ev by blast
qed

text \<open>
  C7. The documents that a run writes are those of the first rows of the table, in
  order, and all of them when the run ends without exception. The document of the row
  of index \<open>i\<close> (from 0) is named, below the output folder, by the \<open>str\<close> of the
  cell of the column \<open>filename\<close> followed by \<open>.pdf\<close> when the table has that column,
  and \<open>output_\<close>, the decimal digits of \<open>i + 1\<close> and \<open>.pdf\<close> when it has not: the
  third row of a table without the column is written as \<open>output_3.pdf\<close>.
\<close>

theorem output_name_determined:
  assumes "fill_pdf_with_data e td df fm cm dfs = (r, x)" and "i < length (files r)"
  shows "i < length (rows df) \<and>
         (''filename'' \<in> set (columns df) \<longrightarrow>
            fst (files r ! i) = str (row_at (columns df) (rows df ! i) ''filename'') @ ''.pdf'') \<and>
         (''filename'' \<notin> set (columns df) \<longrightarrow>
            fst (files r ! i) = ''output_'' @ str_nat (i + 1) @ ''.pdf'') \<and>
         (''filename'' \<notin> set (columns df) \<and> i = 2 \<longrightarrow> fst (files r ! i) = ''output_3.pdf'') \<and>
         (x = None \<longrightarrow> length (files r) = length (rows df))"
proof -
  from fill_pdf_with_data_rows [OF assms(1)] assms(2) obtain r' x' where
    rows: "fill_rows e td (columns df) fm cm dfs 0 (rows df) = (r', x')"
    and f: "files r = files r'" and x: "x = None \<longrightarrow> x' = None"
    by auto
  have i: "i < length (files r')" using assms(2) f by simp
  from fill_rows_files [OF rows i]
  have len: "i < length (rows df)"
    and name: "fst (files r ! i) = output_filename (columns df) (rows df ! i) i"
    using f by simp_all
  have three: "str_nat 3 = ''3''"
    by (simp add: str_nat.simps digit_char_def)
  have complete: "x = None \<longrightarrow> length (files r) = length (rows df)"
    using x rows f fill_rows_complete [of e td "columns df" fm cm dfs 0 "rows df" r'] by auto
  have scenario: "''filename'' \<notin> set (columns df) \<and> i = 2 \<longrightarrow>
      fst (files r ! i) = ''output_3.pdf''"
    using name three by (auto simp: output_filename_def)
  show ?thesis
    using len name complete scenario by (simp add: output_filename_def)
qed

theorem output_name_determined_witness:
  "fill_pdf_with_data example_env example_to_datetime example_frame FIELD_MAPPING
     CHECKBOX_MAPPINGS DATE_FIELDS =
     (fst (fill_pdf_with_data example_env example_to_datetime example_frame FIELD_MAPPING
        CHECKBOX_MAPPINGS DATE_FIELDS), None) \<and>
   0 < length (files (fst (fill_pdf_with_data example_env example_to_datetime example_frame
     FIELD_MAPPING CHECKBOX_MAPPINGS DATE_FIELDS))) \<and>
   ''filename'' \<in> set (columns example_frame) \<and>
   str (row_at (columns example_frame) (rows example_frame ! 0) ''filename'') @ ''.pdf'' =
     ''jane.pdf'' \<and>
   fst (files (fst (fill_pdf_with_data example_env example_to_datetime example_frame
     FIELD_MAPPING CHECKBOX_MAPPINGS DATE_FIELDS)) ! 0) = ''jane.pdf'' \<and>
   length (files (fst (fill_pdf_with_data example_env example_to_datetime example_frame
     FIELD_MAPPING CHECKBOX_MAPPINGS DATE_FIELDS))) = length (rows example_frame) \<and>
   fill_pdf_with_data example_env example_to_datetime example_frame3 FIELD_MAPPING
     CHECKBOX_MAPPINGS DATE_FIELDS =
     (fst (fill_pdf_with_data example_env example_to_datetime example_frame3 FIELD_MAPPING
        CHECKBOX_MAPPINGS DATE_FIELDS), None) \<and>
   2 < length (files (fst (fill_pdf_with_data example_env example_to_datetime example_frame3
     FIELD_MAPPING CHECKBOX_MAPPINGS DATE_FIELDS))) \<and>
   ''filename'' \<notin> set (columns example_frame3) \<and>
   fst (files (fst (fill_pdf_with_data example_env example_to_datetime example_frame3
     FIELD_MAPPING CHECKBOX_MAPPINGS DATE_FIELDS)) ! 2) = ''output_3.pdf''"
proof -
  let ?run = "fill_pdf_with_data example_env example_to_datetime example_frame FIELD_MAPPING
     CHECKBOX_MAPPINGS DATE_FIELDS"
  let ?run3 = "fill_pdf_with_data example_env example_to_datetime example_frame3 FIELD_MAPPING
     CHECKBOX_MAPPINGS DATE_FIELDS"
  have a1: "?run = (fst ?run, None)" by (simp add: example_run)
  have a2: "0 < length (files (fst ?run))" by (simp add: example_run)
  have a3: "''filename'' \<in> set (columns example_frame)"
    by (simp add: example_frame_def example_columns_def)
  have a4: "str (row_at (columns example_frame) (rows example_frame ! 0) ''filename'') @ ''.pdf'' =
     ''jane.pdf''" by code_simp
  have b1: "?run3 = (fst ?run3, None)"
    using example_run3 by (simp add: prod_eq_iff)
  have "length (map fst (files (fst ?run3))) =
      length [''output_1.pdf'', ''output_2.pdf'', ''output_3.pdf'']"
    using example_run3 by (intro arg_cong [where f = length]) blast
  then have b2: "2 < length (files (fst ?run3))" by simp
  have b3: "''filename'' \<notin> set (columns example_frame3)"
    by (simp add: example_frame3_def)
  note t = output_name_determined [OF a1 a2]
  note t3 = output_name_determined [OF b1 b2]
  from t a3 have "fst (files (fst ?run) ! 0) =
      str (row_at (columns example_frame) (rows example_frame ! 0) ''filename'') @ ''.pdf''"
    by blast
  then have n0: "fst (files (fst ?run) ! 0) = ''jane.pdf''"
    by (rule trans [OF _ a4])
  from t have l0: "length (files (fst ?run)) = length (rows example_frame)"
    by blast
  from t3 b3 have n3: "fst (files (fst ?run3) ! 2) = ''output_3.pdf''"
    by blast
  show ?thesis
    using a1 a2 a3 a4 n0 l0 b1 b2 b3 n3 by blast
qed

text \<open>
  C9. Two runs on the same table, mapping tables and date fields, in two environments
  (what the library and the file system answer may differ) and with the date parser
  of each run: when the two parsers give the same answer for the cells of a row under
  the date columns, the values passed to the library for that row are the same list
  of pairs in both runs, the one that the resolution computes from that row alone.
  Without that agreement they can differ: \<open>pd.to_datetime\<close> reads the word \<open>today\<close>
  from the clock, and two runs on two days assign two dates.
\<close>

theorem resolution_deterministic:
  assumes "fill_pdf_with_data e1 td1 df fm cm dfs = (r1, x1)"
    and "fill_pdf_with_data e2 td2 df fm cm dfs = (r2, x2)"
    and "i < length (calls r1)" and "i < length (calls r2)"
    and "\<forall>c \<in> set dfs. td1 (row_at (columns df) (rows df ! i) c) =
                         td2 (row_at (columns df) (rows df ! i) c)"
  shows "snd (calls r1 ! i) = snd (calls r2 ! i) \<and>
         snd (calls r1 ! i) = field_assignment_set td1 (columns df) (rows df ! i) fm cm dfs"
proof -
  have one: "snd (calls r ! i) = field_assignment_set td (columns df) (rows df ! i) fm cm dfs"
    if run: "fill_pdf_with_data e td df fm cm dfs = (r, x)" and i: "i < length (calls r)"
    for e :: "('p, 'o) env" and td r x
  proof -
    from fill_pdf_with_data_rows [OF run] i obtain r' x' where
      rows: "fill_rows e td (columns df) fm cm dfs 0 (rows df) = (r', x')"
      and c: "calls r = calls r'"
      by auto
    have "i < length (calls r')" using i c by simp
    from fill_rows_calls [OF rows this] show ?thesis using c by simp
  qed
  have "field_assignment_set td1 (columns df) (rows df ! i) fm cm dfs =
      field_assignment_set td2 (columns df) (rows df ! i) fm cm dfs"
    using assms(5) by (rule field_assignment_set_parser_agree)
  then show ?thesis
    using one [OF assms(1,3)] one [OF assms(2,4)] by simp
qed

theorem resolution_deterministic_witness:
  "0 < length (calls (fst (fill_pdf_with_data example_env (example_to_datetime_on (example_day 4))
     example_frame FIELD_MAPPING CHECKBOX_MAPPINGS DATE_FIELDS))) \<and>
   0 < length (calls (fst (fill_pdf_with_data example_env2 (example_to_datetime_on (example_day 5))
     example_frame FIELD_MAPPING CHECKBOX_MAPPINGS DATE_FIELDS))) \<and>
   example_to_datetime_on (example_day 4)
     (row_at (columns example_frame) (rows example_frame ! 0) ''Date in Service'') =
   example_to_datetime_on (example_day 5)
     (row_at (columns example_frame) (rows example_frame ! 0) ''Date in Service'') \<and>
   example_to_datetime_on (example_day 4) (CStr ''today'') \<noteq>
     example_to_datetime_on (example_day 5) (CStr ''today'') \<and>
   snd (calls (fst (fill_pdf_with_data example_env (example_to_datetime_on (example_day 4))
     example_frame FIELD_MAPPING CHECKBOX_MAPPINGS DATE_FIELDS)) ! 0) =
   snd (calls (fst (fill_pdf_with_data example_env2 (example_to_datetime_on (example_day 5))
     example_frame FIELD_MAPPING CHECKBOX_MAPPINGS DATE_FIELDS)) ! 0)"
proof -
  let ?run = "fill_pdf_with_data example_env (example_to_datetime_on (example_day 4))
     example_frame FIELD_MAPPING CHECKBOX_MAPPINGS DATE_FIELDS"
  let ?run2 = "fill_pdf_with_data example_env2 (example_to_datetime_on (example_day 5))
     example_frame FIELD_MAPPING CHECKBOX_MAPPINGS DATE_FIELDS"
  have a1: "?run = (fst ?run, snd ?run)" by simp
  have a2: "?run2 = (fst ?run2, snd ?run2)" by simp
  have a3: "0 < length (calls (fst ?run))" by code_simp
  have a4: "0 < length (calls (fst ?run2))" by code_simp
  have a5: "example_to_datetime_on (example_day 4)
       (row_at (columns example_frame) (rows example_frame ! 0) ''Date in Service'') =
     example_to_datetime_on (example_day 5)
       (row_at (columns example_frame) (rows example_frame ! 0) ''Date in Service'')"
    by code_simp
  have a6: "example_to_datetime_on (example_day 4) (CStr ''today'') \<noteq>
     example_to_datetime_on (example_day 5) (CStr ''today'')"
    by (simp add: example_day_def)
  have a7: "\<forall>c \<in> set DATE_FIELDS.
      example_to_datetime_on (example_day 4)
        (row_at (columns example_frame) (rows example_frame ! 0) c) =
      example_to_datetime_on (example_day 5)
        (row_at (columns example_frame) (rows example_frame ! 0) c)"
    using a5 by (simp add: DATE_FIELDS_def)
  note t = resolution_deterministic [OF a1 a2 a3 a4 a7]
  show ?thesis
    using t a3 a4 a5 a6 by blast
qed

theorem resolution_deterministic_counterexample:
  "field_assignment_set (example_to_datetime_on (example_day 4)) (columns example_frame_today)
     (rows example_frame_today ! 0) FIELD_MAPPING CHECKBOX_MAPPINGS DATE_FIELDS =
     [(''f1_07[0]'', ''11/04/2026'')] \<and>
   field_assignment_set (example_to_datetime_on (example_day 5)) (columns example_frame_today)
     (rows example_frame_today ! 0) FIELD_MAPPING CHECKBOX_MAPPINGS DATE_FIELDS =
     [(''f1_07[0]'', ''11/05/2026'')] \<and>
   calls (fst (fill_pdf_with_data example_env (example_to_datetime_on (example_day 4))
     example_frame_today FIELD_MAPPING CHECKBOX_MAPPINGS DATE_FIELDS)) \<noteq>
   calls (fst (fill_pdf_with_data example_env (example_to_datetime_on (example_day 5))
     example_frame_today FIELD_MAPPING CHECKBOX_MAPPINGS DATE_FIELDS))"
  by code_simp

text \<open>
  C10. Every call of \<open>update_page_form_field_values\<close> that a run makes is for the
  first page of the writer, \<open>writer.pages[0]\<close>, whatever the values are. When the
  library keeps to the page it is given (it returns the writer with every other page
  as before), every page but the first of each document written is the page of the
  template.
\<close>

theorem only_first_page_updated:
  assumes "fill_pdf_with_data e td df fm cm dfs = (r, x)"
  shows "(\<forall>c \<in> set (calls r). fst c = 0) \<and>
         (page_local (update_page_form_field_values e) \<longrightarrow>
            (\<forall>i < length (files r). \<exists>rd. PdfReader e i = Inr rd \<and>
               length (pages (snd (files r ! i))) = length (reader_pages rd) \<and>
               (\<forall>j < length (reader_pages rd). 0 < j \<longrightarrow>
                  pages (snd (files r ! i)) ! j = reader_pages rd ! j)))"
proof -
  have first: "fst c = 0" if c: "c \<in> set (calls r)" for c
  proof -
    from c obtain i where i: "i < length (calls r)" and ci: "calls r ! i = c"
      by (auto simp: in_set_conv_nth)
    from fill_pdf_with_data_rows [OF assms] i obtain r' x' where
      rows: "fill_rows e td (columns df) fm cm dfs 0 (rows df) = (r', x')"
      and cr: "calls r = calls r'"
      by auto
    have "i < length (calls r')" using i cr by simp
    from fill_rows_calls [OF rows this]
    have "calls r' ! i = (0, field_assignment_set td (columns df) (rows df ! i) fm cm dfs)"
      by simp
    then have "c = (0, field_assignment_set td (columns df) (rows df ! i) fm cm dfs)"
      using cr ci by simp
    then show ?thesis by simp
  qed
  have others: "\<exists>rd. PdfReader e i = Inr rd \<and>
      length (pages (snd (files r ! i))) = length (reader_pages rd) \<and>
      (\<forall>j < length (reader_pages rd). 0 < j \<longrightarrow>
         pages (snd (files r ! i)) ! j = reader_pages rd ! j)"
    if local: "page_local (update_page_form_field_values e)" and i: "i < length (files r)" for i
  proof -
    from fill_pdf_with_data_rows [OF assms] i obtain r' x' where
      rows: "fill_rows e td (columns df) fm cm dfs 0 (rows df) = (r', x')"
      and fr: "files r = files r'"
      by auto
    have "i < length (files r')" using i fr by simp
    from fill_rows_files [OF rows this] obtain rd where
      rd: "PdfReader e i = Inr rd"
      and upd: "update_page_form_field_values e (fst (copy_template rd)) 0
         (field_assignment_set td (columns df) (rows df ! i) fm cm dfs) = Inr (snd (files r ! i))"
      using fr by auto
    from local upd have
      len: "length (pages (snd (files r ! i))) = length (pages (fst (copy_template rd)))"
      and same: "\<forall>j < length (pages (fst (copy_template rd))). j \<noteq> 0 \<longrightarrow>
         pages (snd (files r ! i)) ! j = pages (fst (copy_template rd)) ! j"
      unfolding page_local_def by blast+
    show ?thesis
      using rd len same by (auto simp: pages_copy_template)
  qed
  show ?thesis
    using first others by blast
qed

theorem only_first_page_updated_witness:
  "fill_pdf_with_data example_env example_to_datetime example_frame FIELD_MAPPING
     CHECKBOX_MAPPINGS DATE_FIELDS =
     (fst (fill_pdf_with_data example_env example_to_datetime example_frame FIELD_MAPPING
        CHECKBOX_MAPPINGS DATE_FIELDS), None) \<and>
   page_local (update_page_form_field_values example_env) \<and>
   calls (fst (fill_pdf_with_data example_env example_to_datetime example_frame FIELD_MAPPING
        CHECKBOX_MAPPINGS DATE_FIELDS)) ! 0 =
     (0, [(''f1_01[0]'', ''Jane Doe''), (''f1_07[0]'', ''04/15/2023''), (''c1_1[0]'', ''/1''),
          (''c1_1[1]'', [])]) \<and>
   PdfReader example_env 0 = Inr example_reader \<and>
   pages (snd (files (fst (fill_pdf_with_data example_env example_to_datetime example_frame
     FIELD_MAPPING CHECKBOX_MAPPINGS DATE_FIELDS)) ! 0)) ! 1 = reader_pages example_reader ! 1 \<and>
   reader_pages example_reader ! 1 = [(''f1_01[0]'', []), (''c1_1[0]'', [])]"
proof -
  let ?run = "fill_pdf_with_data example_env example_to_datetime example_frame FIELD_MAPPING
     CHECKBOX_MAPPINGS DATE_FIELDS"
  have a1: "?run = (fst ?run, None)" by (simp add: example_run)
  have a2: "page_local (update_page_form_field_values example_env)"
    by (simp add: example_env_def page_local_example_update)
  have a3: "calls (fst ?run) ! 0 =
     (0, [(''f1_01[0]'', ''Jane Doe''), (''f1_07[0]'', ''04/15/2023''), (''c1_1[0]'', ''/1''),
          (''c1_1[1]'', [])])" by (simp add: example_run)
  have a4: "PdfReader example_env 0 = Inr example_reader" by (simp add: example_env_def)
  have a5: "0 < length (files (fst ?run))" by (simp add: example_run)
  have a6: "reader_pages example_reader ! 1 = [(''f1_01[0]'', []), (''c1_1[0]'', [])]"
    and a7: "1 < length (reader_pages example_reader)"
    by (simp_all add: example_reader_def)
  from only_first_page_updated [OF a1] a2 a5 obtain rd where
    rd: "PdfReader example_env 0 = Inr rd"
    and same: "\<forall>j < length (reader_pages rd). 0 < j \<longrightarrow>
       pages (snd (files (fst ?run) ! 0)) ! j = reader_pages rd ! j"
    by blast
  have "rd = example_reader" using rd a4 by simp
  then have "pages (snd (files (fst ?run) ! 0)) ! 1 = reader_pages example_reader ! 1"
    using same a7 by simp
  then show ?thesis
    using a1 a2 a3 a4 a6 by blast
qed

end
